theory Spec2Isabelle
  imports Complex_Main "HOL-Library.Word"
begin

section \<open>Go strings\<close>

text \<open>
  A Go string is a sequence of bytes; it is modelled as \<open>string\<close> (a list of 8-bit
  characters).  The functions below are the ones of Go's \<open>strings\<close> package that the
  analysed code calls, with the results the Go documentation gives them.
\<close>

definition HasPrefix :: "string \<Rightarrow> string \<Rightarrow> bool" where
  "HasPrefix s p = (take (length p) s = p)"

definition TrimPrefix :: "string \<Rightarrow> string \<Rightarrow> string" where
  "TrimPrefix s p = (if HasPrefix s p then drop (length p) s else s)"

fun Contains :: "string \<Rightarrow> string \<Rightarrow> bool" where
  "Contains [] sub = (sub = [])"
| "Contains (c # cs) sub = (HasPrefix (c # cs) sub \<or> Contains cs sub)"

text \<open>\<open>strings.LastIndex\<close>: the index of the last occurrence, or \<open>-1\<close>.\<close>

definition LastIndex :: "string \<Rightarrow> string \<Rightarrow> int" where
  "LastIndex s sub =
     (case filter (\<lambda>i. HasPrefix (drop i s) sub) (rev [0 ..< Suc (length s)]) of
        [] \<Rightarrow> - 1
      | i # _ \<Rightarrow> int i)"

text \<open>\<open>strings.Split(s, sep)\<close> for a one-byte separator.\<close>

fun SplitByte :: "char \<Rightarrow> string \<Rightarrow> string list" where
  "SplitByte c [] = [[]]"
| "SplitByte c (x # xs) =
     (if x = c then [] # SplitByte c xs
      else (case SplitByte c xs of [] \<Rightarrow> [[x]] | p # ps \<Rightarrow> (x # p) # ps))"

text \<open>
  \<open>strings.TrimSpace\<close> removes the leading and the trailing white space of a string read
  as UTF-8, white space being what \<open>unicode.IsSpace\<close> accepts: tab, line feed, vertical
  tab, form feed, carriage return, space, U+0085, U+00A0, U+1680, U+2000 to U+200A,
  U+2028, U+2029, U+202F, U+205F and U+3000.  \<open>spaceRunes\<close> lists their UTF-8 encodings.
  A rune decodes to one of these code points only from its one canonical encoding (any
  other byte sequence decodes to another code point or to the error rune, which is not
  white space), and the bytes after the first byte of an encoding are continuation
  bytes, so that decoding the first rune, or the last one, finds a white space exactly
  when the string begins, or ends, with one of the listed encodings.
\<close>

definition spaceRunes :: "string list" where
  "spaceRunes =
     [[CHR 0x09], [CHR 0x0A], [CHR 0x0B], [CHR 0x0C], [CHR 0x0D], [CHR 0x20],
      [CHR 0xC2, CHR 0x85], [CHR 0xC2, CHR 0xA0],
      [CHR 0xE1, CHR 0x9A, CHR 0x80],
      [CHR 0xE2, CHR 0x80, CHR 0x80], [CHR 0xE2, CHR 0x80, CHR 0x81],
      [CHR 0xE2, CHR 0x80, CHR 0x82], [CHR 0xE2, CHR 0x80, CHR 0x83],
      [CHR 0xE2, CHR 0x80, CHR 0x84], [CHR 0xE2, CHR 0x80, CHR 0x85],
      [CHR 0xE2, CHR 0x80, CHR 0x86], [CHR 0xE2, CHR 0x80, CHR 0x87],
      [CHR 0xE2, CHR 0x80, CHR 0x88], [CHR 0xE2, CHR 0x80, CHR 0x89],
      [CHR 0xE2, CHR 0x80, CHR 0x8A],
      [CHR 0xE2, CHR 0x80, CHR 0xA8], [CHR 0xE2, CHR 0x80, CHR 0xA9],
      [CHR 0xE2, CHR 0x80, CHR 0xAF],
      [CHR 0xE2, CHR 0x81, CHR 0x9F],
      [CHR 0xE3, CHR 0x80, CHR 0x80]]"

text \<open>The width in bytes of the white space rune at the head, and at the end, of a string;
  0 when there is none.\<close>

definition leadingSpace :: "string \<Rightarrow> nat" where
  "leadingSpace s =
     (case filter (\<lambda>t. HasPrefix s t) spaceRunes of [] \<Rightarrow> 0 | t # _ \<Rightarrow> length t)"

definition trailingSpace :: "string \<Rightarrow> nat" where
  "trailingSpace s =
     (case filter (\<lambda>t. HasPrefix (rev s) (rev t)) spaceRunes of [] \<Rightarrow> 0 | t # _ \<Rightarrow> length t)"

function TrimLeftSpace :: "string \<Rightarrow> string" where
  "TrimLeftSpace s =
     (if leadingSpace s = 0 \<or> s = [] then s else TrimLeftSpace (drop (leadingSpace s) s))"
  by pat_completeness auto
termination
  by (relation "measure length") auto

function TrimRightSpace :: "string \<Rightarrow> string" where
  "TrimRightSpace s =
     (if trailingSpace s = 0 \<or> s = [] then s
      else TrimRightSpace (take (length s - trailingSpace s) s))"
  by pat_completeness auto
termination
  by (relation "measure length") auto

declare TrimLeftSpace.simps [simp del]
declare TrimRightSpace.simps [simp del]

definition TrimSpace :: "string \<Rightarrow> string" where
  "TrimSpace s = TrimRightSpace (TrimLeftSpace s)"

section \<open>Type normalisation (resolution/go\_types.go, extraction/go\_variables.go)\<close>

definition builtinTypeNames :: "string list" where
  "builtinTypeNames =
     [''string'', ''int'', ''int8'', ''int16'', ''int32'', ''int64'',
      ''uint'', ''uint8'', ''uint16'', ''uint32'', ''uint64'', ''uintptr'',
      ''float32'', ''float64'', ''complex64'', ''complex128'',
      ''bool'', ''byte'', ''rune'', ''error'']"

text \<open>\<open>stdlibNormalizeType\<close> of go\_types.go.\<close>

definition stdlibNormalizeType :: "string \<Rightarrow> string \<Rightarrow> string" where
  "stdlibNormalizeType rawType importPath =
     (let t = TrimPrefix rawType ''*'';
          t = TrimPrefix t ''[]''
      in if t = [] then []
         else if t \<in> set builtinTypeNames then ''builtin.'' @ t
         else if Contains t ''.'' then t
         else importPath @ ''.'' @ t)"

text \<open>\<open>normalizeStdlibReturnType\<close> of the Pass 2b file; the same algorithm, written twice
  in the source.\<close>

definition normalizeStdlibReturnType :: "string \<Rightarrow> string \<Rightarrow> string" where
  "normalizeStdlibReturnType rawType importPath =
     (let t = rawType;
          t = TrimPrefix t ''*'';
          t = TrimPrefix t ''[]''
      in if t = [] then []
         else if t \<in> set builtinTypeNames then ''builtin.'' @ t
         else if Contains t ''.'' then t
         else importPath @ ''.'' @ t)"

text \<open>The two \<open>TrimPrefix\<close> steps that open both normalisers, named for the proofs.\<close>

definition stripQualifiers :: "string \<Rightarrow> string" where
  "stripQualifiers r = TrimPrefix (TrimPrefix r ''*'') ''[]''"

section \<open>Core data (package core)\<close>

text \<open>
  The declarations of package \<open>core\<close> are used by the analysed files; the records below
  carry the fields that code reads and writes.  A \<open>Confidence\<close> holds the decimal literal
  written in the source, kept as a rational number.
\<close>

datatype error = Error string

record TypeInfo =
  TypeFQN :: string
  Confidence :: rat
  Source :: string

record GoReturnValue =
  Type :: string

record GoStdlibFunction =
  Returns :: "GoReturnValue list"

text \<open>
  The \<open>GoStdlibLoader\<close> interface.  \<open>GetFunction\<close> yields either an error or the function
  entry: a loader returns a function whenever it returns no error, so the test
  \<open>fn == nil\<close> of \<open>inferTypeFromStdlibFunction\<close> has no case of its own.  The element
  pointers of \<open>Returns\<close> are never nil.
\<close>

record GoStdlibLoader =
  ValidateStdlibImport :: "string \<Rightarrow> bool"
  GetFunction :: "string \<Rightarrow> string \<Rightarrow> error + GoStdlibFunction"

record GoModuleRegistry =
  ModulePath :: string
  GoVersion :: string
  DirToImport :: "string \<rightharpoonup> string"
  ImportToDir :: "string \<rightharpoonup> string"
  StdlibLoader :: "GoStdlibLoader option"

record GoImportMap =
  Imports :: "string \<rightharpoonup> string"

section \<open>Scopes and the type inference engine (resolution/go\_types.go)\<close>

record Location =
  File :: string
  Line :: "32 word"

record GoVariableBinding =
  VarName :: string
  BindingType :: "TypeInfo option"
  AssignedFrom :: string
  Location :: Location

record GoFunctionScope =
  FunctionFQN :: string
  Variables :: "string \<rightharpoonup> GoVariableBinding list"

definition NewGoFunctionScope :: "string \<Rightarrow> GoFunctionScope" where
  "NewGoFunctionScope functionFQN = \<lparr>FunctionFQN = functionFQN, Variables = Map.empty\<rparr>"

text \<open>Reading a Go map at a missing key gives the nil slice.\<close>

definition GetAllBindings :: "GoFunctionScope \<Rightarrow> string \<Rightarrow> GoVariableBinding list" where
  "GetAllBindings s varName = (case Variables s varName of None \<Rightarrow> [] | Some bs \<Rightarrow> bs)"

text \<open>\<open>AddVariable\<close>: a nil binding is ignored, any other is appended.\<close>

definition AddVariable :: "GoFunctionScope \<Rightarrow> GoVariableBinding option \<Rightarrow> GoFunctionScope" where
  "AddVariable s binding =
     (case binding of
        None \<Rightarrow> s
      | Some b \<Rightarrow> s\<lparr>Variables := (Variables s)(VarName b \<mapsto> GetAllBindings s (VarName b) @ [b])\<rparr>)"

definition GetVariable :: "GoFunctionScope \<Rightarrow> string \<Rightarrow> GoVariableBinding option" where
  "GetVariable s varName =
     (let bindings = GetAllBindings s varName
      in if length bindings = 0 then None else Some (bindings ! (length bindings - 1)))"

definition HasVariable :: "GoFunctionScope \<Rightarrow> string \<Rightarrow> bool" where
  "HasVariable s varName = (length (GetAllBindings s varName) > 0)"

record GoTypeInferenceEngine =
  Scopes :: "string \<rightharpoonup> GoFunctionScope"
  ReturnTypes :: "string \<rightharpoonup> TypeInfo"
  Registry :: "GoModuleRegistry option"

definition NewGoTypeInferenceEngine :: "GoModuleRegistry option \<Rightarrow> GoTypeInferenceEngine" where
  "NewGoTypeInferenceEngine registry =
     \<lparr>Scopes = Map.empty, ReturnTypes = Map.empty, Registry = registry\<rparr>"

definition GetScope :: "GoTypeInferenceEngine \<Rightarrow> string \<Rightarrow> GoFunctionScope option" where
  "GetScope e functionFQN = Scopes e functionFQN"

definition AddScope :: "GoTypeInferenceEngine \<Rightarrow> GoFunctionScope option \<Rightarrow> GoTypeInferenceEngine" where
  "AddScope e scope =
     (case scope of
        None \<Rightarrow> e
      | Some s \<Rightarrow> e\<lparr>Scopes := (Scopes e)(FunctionFQN s \<mapsto> s)\<rparr>)"

definition AddReturnType ::
  "GoTypeInferenceEngine \<Rightarrow> string \<Rightarrow> TypeInfo option \<Rightarrow> GoTypeInferenceEngine" where
  "AddReturnType e functionFQN typeInfo =
     (case typeInfo of
        None \<Rightarrow> e
      | Some ti \<Rightarrow> e\<lparr>ReturnTypes := (ReturnTypes e)(functionFQN \<mapsto> ti)\<rparr>)"

text \<open>The loop of \<open>GetReturnType\<close> over \<open>fn.Returns\<close>.\<close>

fun stdlibFirstReturn :: "string \<Rightarrow> GoReturnValue list \<Rightarrow> TypeInfo option" where
  "stdlibFirstReturn importPath [] = None"
| "stdlibFirstReturn importPath (ret # rest) =
     (if Type ret = [] \<or> Type ret = ''error'' then stdlibFirstReturn importPath rest
      else (let typeFQN = stdlibNormalizeType (Type ret) importPath
            in if typeFQN = [] then stdlibFirstReturn importPath rest
               else Some \<lparr>TypeFQN = typeFQN, Confidence = 1, Source = ''stdlib''\<rparr>))"

text \<open>\<open>GetReturnType\<close>: \<open>Some ti\<close> is the Go result \<open>(ti, true)\<close>, \<open>None\<close> is
  \<open>(nil, false)\<close>.\<close>

definition GetReturnType :: "GoTypeInferenceEngine \<Rightarrow> string \<Rightarrow> TypeInfo option" where
  "GetReturnType e functionFQN =
     (case ReturnTypes e functionFQN of
        Some typeInfo \<Rightarrow> Some typeInfo
      | None \<Rightarrow>
         (case Registry e of
            None \<Rightarrow> None
          | Some reg \<Rightarrow>
             (case StdlibLoader reg of
                None \<Rightarrow> None
              | Some loader \<Rightarrow>
                 (let dotIdx = LastIndex functionFQN ''.''
                  in if dotIdx \<le> 0 then None
                     else (let importPath = take (nat dotIdx) functionFQN;
                               funcName = drop (nat dotIdx + 1) functionFQN
                           in if ValidateStdlibImport loader importPath
                              then (case GetFunction loader importPath funcName of
                                      Inl err \<Rightarrow> None
                                    | Inr fn \<Rightarrow> stdlibFirstReturn importPath (Returns fn))
                              else None)))))"

section \<open>Import classification (resolution/go\_imports.go)\<close>

datatype ImportType = ImportUnknown | ImportStdlib | ImportThirdParty | ImportLocal

text \<open>A \<open>GoImportResolver\<close> holds a registry pointer, which may be nil.\<close>

record GoImportResolver =
  registry :: "GoModuleRegistry option"

definition isStdlibImportFallback :: "GoImportResolver \<Rightarrow> string \<Rightarrow> bool" where
  "isStdlibImportFallback r importPath =
     (if HasPrefix importPath ''internal/'' then False
      else \<not> Contains importPath ''.'')"

definition isStdlibImport :: "GoImportResolver \<Rightarrow> string \<Rightarrow> bool" where
  "isStdlibImport r importPath =
     (case registry r of
        None \<Rightarrow> isStdlibImportFallback r importPath
      | Some reg \<Rightarrow>
         (case StdlibLoader reg of
            None \<Rightarrow> isStdlibImportFallback r importPath
          | Some loader \<Rightarrow> ValidateStdlibImport loader importPath))"

definition ClassifyImport :: "GoImportResolver \<Rightarrow> string \<Rightarrow> ImportType" where
  "ClassifyImport r importPath =
     (if isStdlibImport r importPath then ImportStdlib
      else if HasPrefix importPath ''.'' then ImportLocal
      else (case registry r of
              None \<Rightarrow> ImportThirdParty
            | Some reg \<Rightarrow>
               if ModulePath reg \<noteq> [] \<and> HasPrefix importPath (ModulePath reg)
               then ImportLocal else ImportThirdParty))"

section \<open>Pass 2b: variable assignments (extraction/go\_variables.go)\<close>

text \<open>
  A syntax-tree node, as the code observes it through the tree-sitter interface:
  \<open>Type()\<close>, \<open>Content(sourceCode)\<close>, \<open>ChildByFieldName\<close>, \<open>NamedChildCount\<close> and
  \<open>NamedChild(i)\<close>.  The source bytes only serve to give each node its text, so the text
  is kept in the node.
\<close>

datatype Node =
  Node (NodeType: string) (Content: string) (Fields: "(string \<times> Node) list")
       (NamedChildren: "Node list")

definition ChildByFieldName :: "Node \<Rightarrow> string \<Rightarrow> Node option" where
  "ChildByFieldName n f = map_of (Fields n) f"

text \<open>The record that \<open>ParseShortVarDeclaration\<close> and \<open>ParseAssignment\<close> of package
  \<open>graph/golang\<close> return for one left-hand side name; the fields Pass 2b reads.\<close>

record VariableInfo =
  Name :: string
  Value :: string
  LineNumber :: "32 word"

text \<open>
  Functions that Pass 2b calls and whose code lies outside the analysed files: the two
  assignment parsers of package \<open>graph/golang\<close>, \<open>ParseGoTypeString\<close>, the tree-sitter
  parser and three functions of \<open>path/filepath\<close>.  They are parameters of the model.

  The functions of Pass 2b take the registry and every node as values: their callers
  pass a registry that is not nil, and test a node for nil before they pass it on, so the
  tests \<open>node == nil\<close> at the head of \<open>traverseForVariableAssignments\<close> and of
  \<open>inferTypeFromRHS\<close> have no case of their own.
\<close>

record Helpers =
  ParseCtx :: "string \<Rightarrow> error + Node"
  ParseShortVarDeclaration :: "Node \<Rightarrow> VariableInfo list"
  ParseAssignment :: "Node \<Rightarrow> VariableInfo list"
  ParseGoTypeString :: "string \<Rightarrow> GoModuleRegistry \<Rightarrow> string \<Rightarrow> error + TypeInfo option"
  Dir :: "string \<Rightarrow> string"
  IsAbs :: "string \<Rightarrow> bool"
  Abs :: "string \<Rightarrow> error + string"

fun extractReceiverTypeLoop :: "Node list \<Rightarrow> string" where
  "extractReceiverTypeLoop [] = []"
| "extractReceiverTypeLoop (param # rest) =
     (if NodeType param = ''parameter_declaration''
      then (case ChildByFieldName param ''type'' of
              Some typeNode \<Rightarrow> TrimPrefix (Content typeNode) ''*''
            | None \<Rightarrow> extractReceiverTypeLoop rest)
      else extractReceiverTypeLoop rest)"

definition extractReceiverType :: "Node \<Rightarrow> string" where
  "extractReceiverType receiverNode = extractReceiverTypeLoop (NamedChildren receiverNode)"

definition extractGoFunctionName :: "Node \<Rightarrow> GoImportMap option \<Rightarrow> string" where
  "extractGoFunctionName funcNode importMap =
     (if NodeType funcNode = ''identifier'' then Content funcNode
      else if NodeType funcNode = ''selector_expression'' then
        (case ChildByFieldName funcNode ''field'' of
           None \<Rightarrow> []
         | Some fieldNode \<Rightarrow>
            (let fieldName = Content fieldNode
             in case ChildByFieldName funcNode ''operand'' of
                  None \<Rightarrow> fieldName
                | Some operandNode \<Rightarrow>
                   (case importMap of
                      None \<Rightarrow> fieldName
                    | Some im \<Rightarrow>
                       (case Imports im (Content operandNode) of
                          Some importPath \<Rightarrow> importPath @ ''.'' @ fieldName
                        | None \<Rightarrow> fieldName))))
      else [])"

fun stdlibRegistryFirstReturn :: "string \<Rightarrow> GoReturnValue list \<Rightarrow> TypeInfo option" where
  "stdlibRegistryFirstReturn importPath [] = None"
| "stdlibRegistryFirstReturn importPath (ret # rest) =
     (if Type ret = [] \<or> Type ret = ''error'' then stdlibRegistryFirstReturn importPath rest
      else (let typeFQN = normalizeStdlibReturnType (Type ret) importPath
            in if typeFQN = [] then stdlibRegistryFirstReturn importPath rest
               else Some \<lparr>TypeFQN = typeFQN, Confidence = 9 / 10,
                          Source = ''stdlib_registry''\<rparr>))"

definition inferTypeFromStdlibFunction ::
  "string \<Rightarrow> string \<Rightarrow> GoModuleRegistry \<Rightarrow> TypeInfo option" where
  "inferTypeFromStdlibFunction importPath funcName reg =
     (case StdlibLoader reg of
        None \<Rightarrow> None
      | Some loader \<Rightarrow>
         if ValidateStdlibImport loader importPath
         then (case GetFunction loader importPath funcName of
                 Inl err \<Rightarrow> None
               | Inr fn \<Rightarrow>
                  if length (Returns fn) = 0 then None
                  else stdlibRegistryFirstReturn importPath (Returns fn))
         else None)"

definition inferTypeFromFunctionCall ::
  "Helpers \<Rightarrow> Node \<Rightarrow> string \<Rightarrow> GoTypeInferenceEngine \<Rightarrow> GoModuleRegistry \<Rightarrow>
   GoImportMap option \<Rightarrow> TypeInfo option" where
  "inferTypeFromFunctionCall h callNode filePath typeEngine reg importMap =
     (case ChildByFieldName callNode ''function'' of
        None \<Rightarrow> None
      | Some functionNode \<Rightarrow>
         (let funcName = extractGoFunctionName functionNode importMap
          in if funcName = [] then None
             else
               (let funcName =
                      (if \<not> Contains funcName ''.''
                       then (case DirToImport reg (Dir h filePath) of
                               Some packagePath \<Rightarrow> packagePath @ ''.'' @ funcName
                             | None \<Rightarrow> funcName)
                       else funcName)
                in case GetReturnType typeEngine funcName of
                     Some typeInfo \<Rightarrow> Some typeInfo
                   | None \<Rightarrow>
                      (let idx = LastIndex funcName ''.''
                       in if idx > 0
                          then inferTypeFromStdlibFunction (take (nat idx) funcName)
                                 (drop (nat idx + 1) funcName) reg
                          else None))))"

definition inferTypeFromVariable ::
  "string \<Rightarrow> string \<Rightarrow> GoTypeInferenceEngine \<Rightarrow> TypeInfo option" where
  "inferTypeFromVariable varName functionFQN typeEngine =
     (case GetScope typeEngine functionFQN of
        None \<Rightarrow> None
      | Some scope \<Rightarrow>
         (case Variables scope varName of
            None \<Rightarrow> None
          | Some bindings \<Rightarrow>
             if length bindings = 0 then None
             else BindingType (bindings ! (length bindings - 1))))"

definition inferTypeFromCompositeLiteral ::
  "Helpers \<Rightarrow> Node \<Rightarrow> string \<Rightarrow> GoModuleRegistry \<Rightarrow> TypeInfo option" where
  "inferTypeFromCompositeLiteral h literalNode filePath reg =
     (case ChildByFieldName literalNode ''type'' of
        None \<Rightarrow> None
      | Some typeNode \<Rightarrow>
         (case ParseGoTypeString h (Content typeNode) reg filePath of
            Inl err \<Rightarrow> None
          | Inr typeInfo \<Rightarrow> typeInfo))"

definition literalType :: "string \<Rightarrow> TypeInfo option" where
  "literalType fqn = Some \<lparr>TypeFQN = fqn, Confidence = 1, Source = ''literal''\<rparr>"

text \<open>A child reached through a field or as a named child is smaller than its parent; the
  recursive functions below terminate by this.\<close>

lemma size_field: "map_of (Fields n) f = Some c \<Longrightarrow> size c < size n"
proof (cases n)
  case (Node ty ct fs ns)
  assume "map_of (Fields n) f = Some c"
  with Node have "(f, c) \<in> set fs" by (auto dest: map_of_SomeD)
  then have "size c \<le> size_list (size_prod (\<lambda>_. 0) size) fs"
    by (rule size_list_estimation') simp
  with Node show ?thesis by simp
qed

lemma size_named: "c \<in> set (NamedChildren n) \<Longrightarrow> size c < size n"
proof (cases n)
  case (Node ty ct fs ns)
  assume "c \<in> set (NamedChildren n)"
  with Node have "c \<in> set ns" by simp
  then have "size c \<le> size_list size ns"
    by (rule size_list_estimation') simp
  with Node show ?thesis by simp
qed

lemma size_first: "NamedChildren n = c # cs \<Longrightarrow> size c < size n"
  by (rule size_named) simp

function inferTypeFromRHS ::
  "Helpers \<Rightarrow> Node \<Rightarrow> string \<Rightarrow> string \<Rightarrow> GoTypeInferenceEngine \<Rightarrow> GoModuleRegistry \<Rightarrow>
   GoImportMap option \<Rightarrow> TypeInfo option"
and inferTypeFromUnaryExpression ::
  "Helpers \<Rightarrow> Node \<Rightarrow> string \<Rightarrow> string \<Rightarrow> GoTypeInferenceEngine \<Rightarrow> GoModuleRegistry \<Rightarrow>
   GoImportMap option \<Rightarrow> TypeInfo option"
where
  "inferTypeFromRHS h rhsNode filePath functionFQN typeEngine reg importMap =
     (if NodeType rhsNode = ''interpreted_string_literal''
         \<or> NodeType rhsNode = ''raw_string_literal'' then literalType ''builtin.string''
      else if NodeType rhsNode = ''int_literal'' then literalType ''builtin.int''
      else if NodeType rhsNode = ''float_literal'' then literalType ''builtin.float64''
      else if NodeType rhsNode = ''imaginary_literal'' then literalType ''builtin.complex128''
      else if NodeType rhsNode = ''true'' \<or> NodeType rhsNode = ''false''
        then literalType ''builtin.bool''
      else if NodeType rhsNode = ''rune_literal'' then literalType ''builtin.rune''
      else if NodeType rhsNode = ''nil'' then literalType ''builtin.nil''
      else if NodeType rhsNode = ''call_expression''
        then inferTypeFromFunctionCall h rhsNode filePath typeEngine reg importMap
      else if NodeType rhsNode = ''identifier''
        then inferTypeFromVariable (Content rhsNode) functionFQN typeEngine
      else if NodeType rhsNode = ''composite_literal''
        then inferTypeFromCompositeLiteral h rhsNode filePath reg
      else if NodeType rhsNode = ''unary_expression''
        then inferTypeFromUnaryExpression h rhsNode filePath functionFQN typeEngine reg importMap
      else if NodeType rhsNode = ''expression_list''
        then (case NamedChildren rhsNode of
                [] \<Rightarrow> None
              | firstChild # _ \<Rightarrow>
                  inferTypeFromRHS h firstChild filePath functionFQN typeEngine reg importMap)
      else None)"
| "inferTypeFromUnaryExpression h unaryNode filePath functionFQN typeEngine reg importMap =
     (case ChildByFieldName unaryNode ''operator'' of
        None \<Rightarrow> None
      | Some operatorNode \<Rightarrow>
         (case ChildByFieldName unaryNode ''operand'' of
            None \<Rightarrow> None
          | Some operandNode \<Rightarrow>
             if Content operatorNode = ''&''
             then inferTypeFromRHS h operandNode filePath functionFQN typeEngine reg importMap
             else None))"
  by pat_completeness auto
termination
  by (relation "measure (\<lambda>x. case x of
          Inl (h, n, r) \<Rightarrow> 2 * size n + 1
        | Inr (h, n, r) \<Rightarrow> 2 * size n)")
     (auto simp: ChildByFieldName_def dest: size_field size_first)


text \<open>
  The tail of the loop bodies of \<open>processShortVarDeclaration\<close> and
  \<open>processAssignmentStatement\<close>: get or create the scope of \<open>functionFQN\<close>, then
  \<open>scope.AddVariable(binding)\<close>.  The scope is reached through the pointer stored in
  \<open>Scopes\<close>, so the stored scope is the one that changes.
\<close>

definition addBindingToScope ::
  "GoTypeInferenceEngine \<Rightarrow> string \<Rightarrow> GoVariableBinding \<Rightarrow> GoTypeInferenceEngine" where
  "addBindingToScope typeEngine functionFQN binding =
     (case GetScope typeEngine functionFQN of
        None \<Rightarrow>
          (let scope = NewGoFunctionScope functionFQN;
               typeEngine = AddScope typeEngine (Some scope)
           in typeEngine\<lparr>Scopes :=
                (Scopes typeEngine)(functionFQN \<mapsto> AddVariable scope (Some binding))\<rparr>)
      | Some scope \<Rightarrow>
          typeEngine\<lparr>Scopes :=
            (Scopes typeEngine)(functionFQN \<mapsto> AddVariable scope (Some binding))\<rparr>)"

definition mkBinding :: "VariableInfo \<Rightarrow> TypeInfo \<Rightarrow> string \<Rightarrow> GoVariableBinding" where
  "mkBinding varInfo typeInfo filePath =
     \<lparr>VarName = Name varInfo, BindingType = Some typeInfo, AssignedFrom = Value varInfo,
      Location = \<lparr>File = filePath, Line = LineNumber varInfo\<rparr>\<rparr>"

text \<open>The body of the \<open>range varInfos\<close> loop of \<open>processShortVarDeclaration\<close>.\<close>

definition processShortVarStep ::
  "Helpers \<Rightarrow> Node \<Rightarrow> string \<Rightarrow> string \<Rightarrow> GoModuleRegistry \<Rightarrow> GoImportMap option \<Rightarrow>
   VariableInfo \<Rightarrow> GoTypeInferenceEngine \<Rightarrow> GoTypeInferenceEngine" where
  "processShortVarStep h rhsNode filePath functionFQN reg importMap varInfo typeEngine =
     (if Name varInfo = ''_'' then typeEngine
      else (case inferTypeFromRHS h rhsNode filePath functionFQN typeEngine reg importMap of
              None \<Rightarrow> typeEngine
            | Some typeInfo \<Rightarrow>
                addBindingToScope typeEngine functionFQN
                  (mkBinding varInfo typeInfo filePath)))"

definition processShortVarDeclaration ::
  "Helpers \<Rightarrow> Node \<Rightarrow> string \<Rightarrow> string \<Rightarrow> GoTypeInferenceEngine \<Rightarrow> GoModuleRegistry \<Rightarrow>
   GoImportMap option \<Rightarrow> GoTypeInferenceEngine" where
  "processShortVarDeclaration h node filePath functionFQN typeEngine reg importMap =
     (let varInfos = ParseShortVarDeclaration h node
      in if length varInfos = 0 then typeEngine
         else (case ChildByFieldName node ''right'' of
                 None \<Rightarrow> typeEngine
               | Some rhsNode \<Rightarrow>
                   fold (processShortVarStep h rhsNode filePath functionFQN reg importMap)
                     varInfos typeEngine))"

text \<open>The body of the \<open>range varInfos\<close> loop of \<open>processAssignmentStatement\<close>.\<close>

definition processAssignmentStep ::
  "Helpers \<Rightarrow> Node \<Rightarrow> string \<Rightarrow> string \<Rightarrow> GoModuleRegistry \<Rightarrow> GoImportMap option \<Rightarrow>
   VariableInfo \<Rightarrow> GoTypeInferenceEngine \<Rightarrow> GoTypeInferenceEngine" where
  "processAssignmentStep h rhsNode filePath functionFQN reg importMap varInfo typeEngine =
     (case inferTypeFromRHS h rhsNode filePath functionFQN typeEngine reg importMap of
        None \<Rightarrow> typeEngine
      | Some typeInfo \<Rightarrow>
          addBindingToScope typeEngine functionFQN (mkBinding varInfo typeInfo filePath))"

definition processAssignmentStatement ::
  "Helpers \<Rightarrow> Node \<Rightarrow> string \<Rightarrow> string \<Rightarrow> GoTypeInferenceEngine \<Rightarrow> GoModuleRegistry \<Rightarrow>
   GoImportMap option \<Rightarrow> GoTypeInferenceEngine" where
  "processAssignmentStatement h node filePath functionFQN typeEngine reg importMap =
     (let varInfos = ParseAssignment h node
      in if length varInfos = 0 then typeEngine
         else (case ChildByFieldName node ''right'' of
                 None \<Rightarrow> typeEngine
               | Some rhsNode \<Rightarrow>
                   fold (processAssignmentStep h rhsNode filePath functionFQN reg importMap)
                     varInfos typeEngine))"

text \<open>
  The \<open>switch\<close> of \<open>traverseForVariableAssignments\<close> on the node type: it yields the
  function context for the children and the engine after the node's own assignment.
\<close>

definition visitNode ::
  "Helpers \<Rightarrow> Node \<Rightarrow> string \<Rightarrow> string \<Rightarrow> string \<Rightarrow> GoTypeInferenceEngine \<Rightarrow>
   GoModuleRegistry \<Rightarrow> GoImportMap option \<Rightarrow> string \<times> GoTypeInferenceEngine" where
  "visitNode h node filePath packagePath currentFunctionFQN typeEngine reg importMap =
     (if NodeType node = ''function_declaration'' then
        (case ChildByFieldName node ''name'' of
           Some nameNode \<Rightarrow> (packagePath @ ''.'' @ Content nameNode, typeEngine)
         | None \<Rightarrow> (currentFunctionFQN, typeEngine))
      else if NodeType node = ''method_declaration'' then
        (case ChildByFieldName node ''name'' of
           None \<Rightarrow> (currentFunctionFQN, typeEngine)
         | Some nameNode \<Rightarrow>
            (case ChildByFieldName node ''receiver'' of
               None \<Rightarrow> (currentFunctionFQN, typeEngine)
             | Some receiverNode \<Rightarrow>
                (let receiverType = extractReceiverType receiverNode
                 in if receiverType \<noteq> []
                    then (packagePath @ ''.'' @ receiverType @ ''.'' @ Content nameNode,
                          typeEngine)
                    else (currentFunctionFQN, typeEngine))))
      else if NodeType node = ''short_var_declaration'' then
        (currentFunctionFQN,
         if currentFunctionFQN \<noteq> []
         then processShortVarDeclaration h node filePath currentFunctionFQN typeEngine reg
                importMap
         else typeEngine)
      else if NodeType node = ''assignment_statement'' then
        (currentFunctionFQN,
         if currentFunctionFQN \<noteq> []
         then processAssignmentStatement h node filePath currentFunctionFQN typeEngine reg
                importMap
         else typeEngine)
      else (currentFunctionFQN, typeEngine))"

function traverseForVariableAssignments ::
  "Helpers \<Rightarrow> Node \<Rightarrow> string \<Rightarrow> string \<Rightarrow> string \<Rightarrow> GoTypeInferenceEngine \<Rightarrow>
   GoModuleRegistry \<Rightarrow> GoImportMap option \<Rightarrow> GoTypeInferenceEngine" where
  "traverseForVariableAssignments h node filePath packagePath currentFunctionFQN typeEngine
     reg importMap =
     fold (\<lambda>child te.
             traverseForVariableAssignments h child filePath packagePath
               (fst (visitNode h node filePath packagePath currentFunctionFQN typeEngine reg
                       importMap))
               te reg importMap)
          (NamedChildren node)
          (snd (visitNode h node filePath packagePath currentFunctionFQN typeEngine reg
                  importMap))"
  by pat_completeness auto
termination
  by (relation "measure (\<lambda>(h, n, r). size n)") (auto dest: size_named)

text \<open>The loop of \<open>traverseForVariableAssignments\<close> over the named children, by itself.\<close>

definition traverseChildren ::
  "Helpers \<Rightarrow> Node list \<Rightarrow> string \<Rightarrow> string \<Rightarrow> string \<Rightarrow> GoTypeInferenceEngine \<Rightarrow>
   GoModuleRegistry \<Rightarrow> GoImportMap option \<Rightarrow> GoTypeInferenceEngine" where
  "traverseChildren h cs filePath packagePath currentFunctionFQN typeEngine reg importMap =
     fold (\<lambda>child te.
             traverseForVariableAssignments h child filePath packagePath currentFunctionFQN
               te reg importMap)
          cs typeEngine"

text \<open>The bindings of a variable in the scope of a function, empty when the engine has
  no such scope; the latest of them, as \<open>GetVariable\<close> gives it; and the source line of a
  binding.\<close>

definition scopeBindings ::
  "GoTypeInferenceEngine \<Rightarrow> string \<Rightarrow> string \<Rightarrow> GoVariableBinding list" where
  "scopeBindings e functionFQN varName =
     (case GetScope e functionFQN of None \<Rightarrow> [] | Some s \<Rightarrow> GetAllBindings s varName)"

definition latestBinding ::
  "GoTypeInferenceEngine \<Rightarrow> string \<Rightarrow> string \<Rightarrow> GoVariableBinding option" where
  "latestBinding e functionFQN varName =
     (case GetScope e functionFQN of None \<Rightarrow> None | Some s \<Rightarrow> GetVariable s varName)"






text \<open>The node types on which \<open>traverseForVariableAssignments\<close> acts.\<close>

definition isContextOrAssignment :: "string \<Rightarrow> bool" where
  "isContextOrAssignment ty = (ty = ''function_declaration'' \<or> ty = ''method_declaration''
      \<or> ty = ''short_var_declaration'' \<or> ty = ''assignment_statement'')"

declare traverseForVariableAssignments.simps [simp del]
declare inferTypeFromRHS.simps [simp del]
declare inferTypeFromUnaryExpression.simps [simp del]

text \<open>The directory under which \<open>ExtractGoVariableAssignments\<close> looks the file up in
  \<open>DirToImport\<close>: \<open>filepath.Dir\<close> of the file, made absolute when it is relative and
  \<open>filepath.Abs\<close> succeeds.\<close>

definition registryDirPath :: "Helpers \<Rightarrow> string \<Rightarrow> string" where
  "registryDirPath h filePath =
     (let dirPath = Dir h filePath
      in if \<not> IsAbs h dirPath
         then (case Abs h dirPath of Inr absPath \<Rightarrow> absPath | Inl err \<Rightarrow> dirPath)
         else dirPath)"

text \<open>\<open>ExtractGoVariableAssignments\<close>: the returned error (\<open>None\<close> is nil) and the engine
  after the call.\<close>

definition ExtractGoVariableAssignments ::
  "Helpers \<Rightarrow> string \<Rightarrow> string \<Rightarrow> GoTypeInferenceEngine \<Rightarrow> GoModuleRegistry \<Rightarrow>
   GoImportMap option \<Rightarrow> error option \<times> GoTypeInferenceEngine" where
  "ExtractGoVariableAssignments h filePath sourceCode typeEngine reg importMap =
     (case ParseCtx h sourceCode of
        Inl err \<Rightarrow> (Some err, typeEngine)
      | Inr rootNode \<Rightarrow>
         (case DirToImport reg (registryDirPath h filePath) of
            None \<Rightarrow> (None, typeEngine)
          | Some packagePath \<Rightarrow>
              (None, traverseForVariableAssignments h rootNode filePath packagePath []
                       typeEngine reg importMap)))"

section \<open>Toolchain version detection (builder/go\_version.go)\<close>

text \<open>The files of the project, as \<open>os.ReadFile\<close> and \<open>filepath.Join\<close> present them.\<close>

record FileSystem =
  ReadFile :: "string \<Rightarrow> error + string"
  Join :: "string \<Rightarrow> string \<Rightarrow> string"

definition defaultGoVersion :: string where
  "defaultGoVersion = ''1.21''"

text \<open>
  \<open>goVersionRegex\<close> is \<^verbatim>\<open>(?m)^go\s+(\d+\.\d+)\<close>.  In Go's syntax \<^verbatim>\<open>\s\<close> is tab, line
  feed, form feed, carriage return or space and \<^verbatim>\<open>\d\<close> is an ASCII digit.  White space
  and digits are disjoint from what follows them in the pattern, so each repetition takes
  the longest run.  \<open>matchGoDirective\<close> matches the pattern after \<^verbatim>\<open>^\<close> at the head of
  a text and yields the group; \<open>findGoDirective\<close> tries every line start from left to
  right, as \<open>FindSubmatch\<close> takes the leftmost match.
\<close>

definition isRegexSpace :: "char \<Rightarrow> bool" where
  "isRegexSpace c = (c \<in> set [CHR 0x09, CHR 0x0A, CHR 0x0C, CHR 0x0D, CHR 0x20])"

definition isDigit :: "char \<Rightarrow> bool" where
  "isDigit c = (c \<in> set ''0123456789'')"

definition matchGoDirective :: "string \<Rightarrow> string option" where
  "matchGoDirective s =
     (if HasPrefix s ''go'' then
        (let r = drop 2 s;
             ws = takeWhile isRegexSpace r;
             r1 = dropWhile isRegexSpace r;
             d1 = takeWhile isDigit r1;
             r2 = dropWhile isDigit r1
         in if ws = [] then None
            else if d1 = [] then None
            else (case r2 of
                    [] \<Rightarrow> None
                  | c # r3 \<Rightarrow>
                      if c = CHR ''.'' then
                        (let d2 = takeWhile isDigit r3
                         in if d2 = [] then None else Some (d1 @ ''.'' @ d2))
                      else None))
      else None)"

fun findGoDirective :: "bool \<Rightarrow> string \<Rightarrow> string option" where
  "findGoDirective atLineStart [] = None"
| "findGoDirective atLineStart (c # cs) =
     (case (if atLineStart then matchGoDirective (c # cs) else None) of
        Some v \<Rightarrow> Some v
      | None \<Rightarrow> findGoDirective (c = CHR 0x0A) cs)"

definition normalizeGoVersion :: "string \<Rightarrow> string" where
  "normalizeGoVersion version =
     (let parts = SplitByte (CHR ''.'') version
      in if length parts \<ge> 2 then parts ! 0 @ ''.'' @ parts ! 1 else version)"

definition parseGoVersionFromFile :: "FileSystem \<Rightarrow> string \<Rightarrow> string" where
  "parseGoVersionFromFile fs path =
     (case ReadFile fs path of
        Inl err \<Rightarrow> []
      | Inr data \<Rightarrow> (case findGoDirective True data of Some m \<Rightarrow> m | None \<Rightarrow> []))"

definition readGoVersionFile :: "FileSystem \<Rightarrow> string \<Rightarrow> string" where
  "readGoVersionFile fs projectPath =
     (case ReadFile fs (Join fs projectPath ''.go-version'') of
        Inl err \<Rightarrow> []
      | Inr data \<Rightarrow> normalizeGoVersion (TrimSpace data))"

definition DetectGoVersion :: "FileSystem \<Rightarrow> string \<Rightarrow> string" where
  "DetectGoVersion fs projectPath =
     (let v = parseGoVersionFromFile fs (Join fs projectPath ''go.mod'')
      in if v \<noteq> [] then normalizeGoVersion v
         else (let v = readGoVersionFile fs projectPath
               in if v \<noteq> [] then v
                  else (let v = parseGoVersionFromFile fs (Join fs projectPath ''go.work'')
                        in if v \<noteq> [] then normalizeGoVersion v
                           else defaultGoVersion)))"

text \<open>The specification's "major.minor" form: two non-empty runs of digits with one dot
  between them.\<close>

definition isMajorMinor :: "string \<Rightarrow> bool" where
  "isMajorMinor v =
     (case SplitByte (CHR ''.'') v of
        [a, b] \<Rightarrow> a \<noteq> [] \<and> list_all isDigit a \<and> b \<noteq> [] \<and> list_all isDigit b
      | _ \<Rightarrow> False)"

section \<open>Call target resolution (builder/go\_builder.go)\<close>

record CallSiteInternal =
  FunctionName :: string
  ObjectName :: string

text \<open>
  Modelled from the spec: \<open>resolveGoCallTarget\<close> of the call graph builder, whose file is
  not among the analysed sources (its test is).  The result is
  \<open>(targetFQN, resolved, isStdlib)\<close>.  The patterns of section 4.5 are tried in order:
  a selector call on a package alias of the import map (stdlib exactly when the attached
  loader validates the import path); a selector call on a variable with a known type
  (method dispatch, not stdlib); a bare call (a builtin of the language, else a function
  of the current package); otherwise unresolved.  The types of variables, the builtins of
  the language and the current package are parameters.
\<close>

definition resolveGoCallTarget ::
  "CallSiteInternal \<Rightarrow> GoImportMap \<Rightarrow> GoModuleRegistry \<Rightarrow> (string \<rightharpoonup> string) \<Rightarrow>
   (string \<Rightarrow> bool) \<Rightarrow> string \<Rightarrow> string \<times> bool \<times> bool" where
  "resolveGoCallTarget cs importMap reg varTypes isBuiltin currentPackage =
     (if ObjectName cs \<noteq> [] then
        (case Imports importMap (ObjectName cs) of
           Some importPath \<Rightarrow>
             (importPath @ ''.'' @ FunctionName cs, True,
              (case StdlibLoader reg of
                 None \<Rightarrow> False
               | Some loader \<Rightarrow> ValidateStdlibImport loader importPath))
         | None \<Rightarrow>
             (case varTypes (ObjectName cs) of
                Some typeFQN \<Rightarrow> (typeFQN @ ''.'' @ FunctionName cs, True, False)
              | None \<Rightarrow> ([], False, False)))
      else if isBuiltin (FunctionName cs) then (''builtin.'' @ FunctionName cs, True, False)
      else (currentPackage @ ''.'' @ FunctionName cs, True, False))"

section \<open>The specification's wording, for comparison\<close>

definition resolverLoader :: "GoImportResolver \<Rightarrow> GoStdlibLoader option" where
  "resolverLoader r = (case registry r of None \<Rightarrow> None | Some reg \<Rightarrow> StdlibLoader reg)"

definition engineLoader :: "GoTypeInferenceEngine \<Rightarrow> GoStdlibLoader option" where
  "engineLoader e = (case Registry e of None \<Rightarrow> None | Some reg \<Rightarrow> StdlibLoader reg)"

text \<open>
  A path is a prefix-subpath of a module path when it is the module path itself or
  continues it after a \<open>/\<close>: \<open>github.com/example/myapp/handlers\<close> lies under
  \<open>github.com/example/myapp\<close>, \<open>github.com/example/myapp2\<close> does not.
\<close>

definition isSubpathOf :: "string \<Rightarrow> string \<Rightarrow> bool" where
  "isSubpathOf importPath modulePath =
     (importPath = modulePath \<or> HasPrefix importPath (modulePath @ ''/''))"

text \<open>
  The classification rule in the words of the specification (section 4.3): stdlib when
  the Stdlib Loader validates the path; else local when the path is relative (starts
  with \<open>.\<close>) or is a prefix-subpath of the module's own path; else third-party.
\<close>

definition ClassifyImport_spec :: "GoImportResolver \<Rightarrow> string \<Rightarrow> ImportType" where
  "ClassifyImport_spec r importPath =
     (if (case resolverLoader r of
            None \<Rightarrow> False
          | Some loader \<Rightarrow> ValidateStdlibImport loader importPath) then ImportStdlib
      else if HasPrefix importPath ''.''
              \<or> (case registry r of
                    None \<Rightarrow> False
                  | Some reg \<Rightarrow> isSubpathOf importPath (ModulePath reg))
        then ImportLocal
      else ImportThirdParty)"

text \<open>
  The import paths on which the module test of \<open>ClassifyImport\<close>, a test for a string
  prefix, leaves the path boundary: the module path is a prefix of the path, but the
  path is not a prefix-subpath of it.
\<close>

definition prefixOffBoundary :: "GoImportResolver \<Rightarrow> string \<Rightarrow> bool" where
  "prefixOffBoundary r importPath =
     (case registry r of
        None \<Rightarrow> False
      | Some reg \<Rightarrow>
          ModulePath reg \<noteq> [] \<and> HasPrefix importPath (ModulePath reg)
          \<and> \<not> isSubpathOf importPath (ModulePath reg))"

text \<open>
  The return-type lookup in the words of the specification (section 4.4): the local table
  first; on a miss, with a loader attached, split on the last \<open>.\<close>, validate the prefix
  and take the first return whose raw type is non-empty and not \<open>error\<close>, normalised,
  with source \<open>stdlib\<close> and confidence 1.0; otherwise not found.
\<close>

definition GetReturnType_spec :: "GoTypeInferenceEngine \<Rightarrow> string \<Rightarrow> TypeInfo option" where
  "GetReturnType_spec e functionFQN =
     (case ReturnTypes e functionFQN of
        Some typeInfo \<Rightarrow> Some typeInfo
      | None \<Rightarrow>
         (case engineLoader e of
            None \<Rightarrow> None
          | Some loader \<Rightarrow>
             (let dotIdx = LastIndex functionFQN ''.''
              in if dotIdx < 0 then None
                 else (let importPath = take (nat dotIdx) functionFQN;
                           funcName = drop (nat dotIdx + 1) functionFQN
                       in if ValidateStdlibImport loader importPath
                          then (case GetFunction loader importPath funcName of
                                  Inl err \<Rightarrow> None
                                | Inr fn \<Rightarrow>
                                   (case List.find (\<lambda>ret. Type ret \<noteq> [] \<and> Type ret \<noteq> ''error'')
                                           (Returns fn) of
                                      None \<Rightarrow> None
                                    | Some ret \<Rightarrow>
                                        Some \<lparr>TypeFQN = stdlibNormalizeType (Type ret) importPath,
                                              Confidence = 1, Source = ''stdlib''\<rparr>))
                          else None))))"

section \<open>Fixtures\<close>

text \<open>A loader given by its set of packages and its table of functions, keyed
  \<open>importPath.funcName\<close>, as the mock loaders of the test files are.\<close>

definition mockStdlibLoader ::
  "string list \<Rightarrow> (string \<times> string list) list \<Rightarrow> GoStdlibLoader" where
  "mockStdlibLoader stdlibPkgs functions =
     \<lparr>ValidateStdlibImport = (\<lambda>importPath. importPath \<in> set stdlibPkgs),
      GetFunction = (\<lambda>importPath funcName.
         case map_of functions (importPath @ ''.'' @ funcName) of
           None \<Rightarrow> Inl (Error ''not implemented by mock'')
         | Some rets \<Rightarrow> Inr \<lparr>Returns = map (\<lambda>t. \<lparr>Type = t\<rparr>) rets\<rparr>)\<rparr>"

definition mkRegistry ::
  "string \<Rightarrow> (string \<times> string) list \<Rightarrow> GoStdlibLoader option \<Rightarrow> GoModuleRegistry" where
  "mkRegistry modulePath dirs loader =
     \<lparr>ModulePath = modulePath, GoVersion = [], DirToImport = map_of dirs,
      ImportToDir = map_of (map (\<lambda>(d, i). (i, d)) dirs), StdlibLoader = loader\<rparr>"

text \<open>Resolvers with a loader that knows \<open>fmt\<close>: over a module path, and over a registry
  whose module path is not set.\<close>

definition moduleResolver :: "string \<Rightarrow> GoImportResolver" where
  "moduleResolver modulePath =
     \<lparr>registry = Some (mkRegistry modulePath [] (Some (mockStdlibLoader [''fmt''] [])))\<rparr>"

text \<open>The engine of \<open>TestGetReturnType_StdlibFallback_EmptyTypeFQNSkipped\<close>.\<close>

definition weirdEngine :: GoTypeInferenceEngine where
  "weirdEngine =
     NewGoTypeInferenceEngine
       (Some (mkRegistry [] []
          (Some (mockStdlibLoader [''os''] [(''os.Weird'', [''[]'', ''File''])]))))"

text \<open>Project directories for the version detection scenarios of go\_version\_test.go.\<close>

definition mkFileSystem :: "(string \<times> string) list \<Rightarrow> FileSystem" where
  "mkFileSystem files =
     \<lparr>ReadFile = (\<lambda>path. case map_of files path of
                              None \<Rightarrow> Inl (Error ''no such file'')
                            | Some d \<Rightarrow> Inr d),
      Join = (\<lambda>a b. a @ ''/'' @ b)\<rparr>"

definition fsGoMod :: FileSystem where
  "fsGoMod = mkFileSystem
     [(''/p/go.mod'', ''module example.com/app'' @ [CHR 0x0A, CHR 0x0A] @ ''go 1.24'' @ [CHR 0x0A]),
      (''/p/.go-version'', ''1.22.0'' @ [CHR 0x0A])]"

definition fsPin :: FileSystem where
  "fsPin = mkFileSystem
     [(''/p/.go-version'', ''1.22.0'' @ [CHR 0x0A]), (''/p/go.work'', ''go 1.23'' @ [CHR 0x0A])]"

definition fsWork :: FileSystem where
  "fsWork = mkFileSystem [(''/p/go.work'', ''go 1.23'' @ [CHR 0x0A, CHR 0x0A] @ ''use .'' @ [CHR 0x0A])]"

definition fsEmpty :: FileSystem where
  "fsEmpty = mkFileSystem []"

definition fsPinOne :: FileSystem where
  "fsPinOne = mkFileSystem [(''/p/.go-version'', ''1'')]"

text \<open>A pin file that holds a no-break space (U+00A0) and a line feed, beside a go.work.\<close>

definition fsPinBlank :: FileSystem where
  "fsPinBlank = mkFileSystem
     [(''/p/.go-version'', [CHR 0xC2, CHR 0xA0, CHR 0x0A]),
      (''/p/go.work'', ''go 1.23'' @ [CHR 0x0A])]"

definition fsPinRc :: FileSystem where
  "fsPinRc = mkFileSystem [(''/p/.go-version'', ''1.21rc2'' @ [CHR 0x0A])]"

text \<open>
  Syntax trees for the scenarios.  A leaf has no children; \<open>branch\<close> builds a node whose
  children are all named, some of them reachable through a field name as well.
\<close>

definition leaf :: "string \<Rightarrow> string \<Rightarrow> Node" where
  "leaf ty text = Node ty text [] []"

definition branch :: "string \<Rightarrow> string \<Rightarrow> (string option \<times> Node) list \<Rightarrow> Node" where
  "branch ty text cs =
     Node ty text
       (concat (map (\<lambda>(f, c). case f of None \<Rightarrow> [] | Some name \<Rightarrow> [(name, c)]) cs))
       (map snd cs)"

text \<open>
  Stand-ins for the functions kept as parameters, for the scenarios only.  The two
  assignment parsers give one \<open>VariableInfo\<close> per identifier of the \<open>left\<close> field (the
  blank identifier included, which is why \<open>processShortVarDeclaration\<close> tests for it),
  with the text of the \<open>right\<close> field as value and the line found for the statement's text
  in a table.  \<open>Dir\<close> cuts an absolute path at its last slash.
\<close>

definition lineOf :: "(string \<times> 32 word) list \<Rightarrow> string \<Rightarrow> 32 word" where
  "lineOf lines text = (case map_of lines text of None \<Rightarrow> 0 | Some k \<Rightarrow> k)"

definition assignmentVars :: "(string \<times> 32 word) list \<Rightarrow> Node \<Rightarrow> VariableInfo list" where
  "assignmentVars lines node =
     (case ChildByFieldName node ''left'' of
        None \<Rightarrow> []
      | Some l \<Rightarrow>
         map (\<lambda>n. \<lparr>Name = Content n,
                    Value = (case ChildByFieldName node ''right'' of
                               None \<Rightarrow> [] | Some r \<Rightarrow> Content r),
                    LineNumber = lineOf lines (Content node)\<rparr>)
             (NamedChildren l))"

definition scenarioHelpers :: "Node \<Rightarrow> (string \<times> 32 word) list \<Rightarrow> Helpers" where
  "scenarioHelpers tree lines =
     \<lparr>ParseCtx = (\<lambda>sourceCode. Inr tree),
      ParseShortVarDeclaration = assignmentVars lines,
      ParseAssignment = assignmentVars lines,
      ParseGoTypeString = (\<lambda>typeName reg filePath. Inl (Error ''unsupported type'')),
      Dir = (\<lambda>path. take (nat (LastIndex path ''/'')) path),
      IsAbs = (\<lambda>path. HasPrefix path ''/''),
      Abs = (\<lambda>path. Inr (''/cwd/'' @ path))\<rparr>"

text \<open>The calls \<open>http.Get(arg)\<close> and \<open>name(args)\<close>, and the statements \<open>lhs := rhs\<close> and
  \<open>lhs = rhs\<close>.\<close>

definition httpGetCall :: "string \<Rightarrow> Node" where
  "httpGetCall arg =
     branch ''call_expression'' (''http.Get('' @ arg @ '')'')
       [(Some ''function'',
           branch ''selector_expression'' ''http.Get''
             [(Some ''operand'', leaf ''identifier'' ''http''),
              (Some ''field'', leaf ''field_identifier'' ''Get'')]),
        (Some ''arguments'',
           branch ''argument_list'' (''('' @ arg @ '')'') [(None, leaf ''identifier'' arg)])]"

definition bareCall :: "string \<Rightarrow> string \<Rightarrow> Node list \<Rightarrow> Node" where
  "bareCall name text args =
     branch ''call_expression'' text
       [(Some ''function'', leaf ''identifier'' name),
        (Some ''arguments'', branch ''argument_list'' [] (map (\<lambda>a. (None, a)) args))]"

definition exprList :: "Node list \<Rightarrow> string \<Rightarrow> Node" where
  "exprList es text = branch ''expression_list'' text (map (\<lambda>e. (None, e)) es)"

definition shortVarDecl :: "string list \<Rightarrow> Node \<Rightarrow> string \<Rightarrow> Node" where
  "shortVarDecl names rhs text =
     branch ''short_var_declaration'' text
       [(Some ''left'', exprList (map (leaf ''identifier'') names) []),
        (Some ''right'', exprList [rhs] (Content rhs))]"

definition assignStmt :: "string list \<Rightarrow> Node \<Rightarrow> string \<Rightarrow> Node" where
  "assignStmt names rhs text =
     branch ''assignment_statement'' text
       [(Some ''left'', exprList (map (leaf ''identifier'') names) []),
        (Some ''right'', exprList [rhs] (Content rhs))]"

definition funcDecl :: "string \<Rightarrow> Node list \<Rightarrow> Node" where
  "funcDecl name stmts =
     branch ''function_declaration'' (''func '' @ name @ ''()'')
       [(Some ''name'', leaf ''identifier'' name),
        (Some ''parameters'', leaf ''parameter_list'' ''()''),
        (Some ''body'', branch ''block'' [] (map (\<lambda>st. (None, st)) stmts))]"

definition sourceFile :: "string \<Rightarrow> Node list \<Rightarrow> Node" where
  "sourceFile pkg decls =
     branch ''source_file'' []
       ((None, branch ''package_clause'' (''package '' @ pkg)
                 [(None, leaf ''package_identifier'' pkg)])
        # map (\<lambda>d. (None, d)) decls)"

text \<open>
  Scenario S1: package \<open>main\<close> in directory \<open>/app\<close>, \<open>net/http\<close> imported as \<open>http\<close>,
  \<open>func main() { resp, _ := http.Get(url) }\<close>; the loader knows \<open>net/http\<close> and
  \<open>Get\<close> returning \<open>[*Response, error]\<close>; the engine is created over the same registry.
\<close>

definition s1Loader :: GoStdlibLoader where
  "s1Loader = mockStdlibLoader [''net/http''] [(''net/http.Get'', [''*Response'', ''error''])]"

definition s1Registry :: GoModuleRegistry where
  "s1Registry = mkRegistry ''main'' [(''/app'', ''main'')] (Some s1Loader)"

definition s1Imports :: GoImportMap where
  "s1Imports = \<lparr>Imports = [''http'' \<mapsto> ''net/http'']\<rparr>"

definition s1Tree :: Node where
  "s1Tree =
     sourceFile ''main''
       [funcDecl ''main''
          [shortVarDecl [''resp'', ''_''] (httpGetCall ''url'') ''resp, _ := http.Get(url)'']]"

definition s1Helpers :: Helpers where
  "s1Helpers = scenarioHelpers s1Tree [(''resp, _ := http.Get(url)'', 4)]"

definition s1Result :: GoTypeInferenceEngine where
  "s1Result =
     snd (ExtractGoVariableAssignments s1Helpers ''/app/main.go'' []
            (NewGoTypeInferenceEngine (Some s1Registry)) s1Registry (Some s1Imports))"

text \<open>
  Scenario S4: \<open>u := GetUser(1)\<close> on line 10 and \<open>u = NewUser()\<close> on line 20 in
  \<open>func Handle\<close> of package \<open>pkg\<close>, both functions registered as returning \<open>pkg.User\<close>.
\<close>

definition userType :: TypeInfo where
  "userType = \<lparr>TypeFQN = ''pkg.User'', Confidence = 95 / 100, Source = ''declaration''\<rparr>"

definition s4Registry :: GoModuleRegistry where
  "s4Registry = mkRegistry ''pkg'' [(''/app'', ''pkg'')] None"

definition s4Engine :: GoTypeInferenceEngine where
  "s4Engine =
     AddReturnType
       (AddReturnType (NewGoTypeInferenceEngine (Some s4Registry)) ''pkg.GetUser'' (Some userType))
       ''pkg.NewUser'' (Some userType)"

definition s4Tree :: Node where
  "s4Tree =
     sourceFile ''pkg''
       [funcDecl ''Handle''
          [shortVarDecl [''u''] (bareCall ''GetUser'' ''GetUser(1)'' [leaf ''int_literal'' ''1''])
             ''u := GetUser(1)'',
           assignStmt [''u''] (bareCall ''NewUser'' ''NewUser()'' []) ''u = NewUser()'']]"

definition s4Helpers :: Helpers where
  "s4Helpers = scenarioHelpers s4Tree [(''u := GetUser(1)'', 10), (''u = NewUser()'', 20)]"

definition s4Result :: GoTypeInferenceEngine where
  "s4Result = snd (ExtractGoVariableAssignments s4Helpers ''/app/main.go'' [] s4Engine s4Registry None)"

definition s4Binding :: "string \<Rightarrow> 32 word \<Rightarrow> GoVariableBinding" where
  "s4Binding from line = \<lparr>VarName = ''u'', BindingType = Some userType, AssignedFrom = from,
      Location = \<lparr>File = ''/app/main.go'', Line = line\<rparr>\<rparr>"






text \<open>
  The source of \<open>TestExtractGoVariables_StdlibFunctionReturn\<close>: in \<open>func Handler\<close>,
  \<open>resp, _ := http.Get(url)\<close> on line 6 and \<open>_ = resp\<close> on line 7.
\<close>

definition blankRegistry :: GoModuleRegistry where
  "blankRegistry = mkRegistry ''test'' [(''/test'', ''test'')] (Some s1Loader)"

definition blankTree :: Node where
  "blankTree = sourceFile ''main''
     [funcDecl ''Handler''
        [shortVarDecl [''resp'', ''_''] (httpGetCall ''url'') ''resp, _ := http.Get(url)'',
         assignStmt [''_''] (leaf ''identifier'' ''resp'') ''_ = resp'']]"

definition blankResult :: GoTypeInferenceEngine where
  "blankResult =
     snd (ExtractGoVariableAssignments
            (scenarioHelpers blankTree [(''resp, _ := http.Get(url)'', 6), (''_ = resp'', 7)])
            ''/test/main.go'' [] (NewGoTypeInferenceEngine (Some blankRegistry)) blankRegistry
            (Some s1Imports))"

section \<open>Lemmas on strings\<close>

lemma Contains_char: "Contains s [c] = (c \<in> set s)"
  by (induction s) (auto simp: HasPrefix_def)

lemma HasPrefix_char: "HasPrefix s [c] = (s \<noteq> [] \<and> hd s = c)"
  by (cases s) (auto simp: HasPrefix_def)



section \<open>The fallback classifier\<close>

text \<open>
  Claim C7.  With no Stdlib Loader (a nil registry, or a registry without loader), an
  import path is reported as stdlib exactly when it contains no \<open>.\<close> and does not begin
  with \<open>internal/\<close>; this is what \<open>isStdlibImportFallback\<close> computes for every resolver.
\<close>

theorem fallback_classifier_iff:
  "isStdlibImportFallback r p = (CHR ''.'' \<notin> set p \<and> \<not> HasPrefix p ''internal/'')
   \<and> isStdlibImport \<lparr>registry = None\<rparr> p
       = (CHR ''.'' \<notin> set p \<and> \<not> HasPrefix p ''internal/'')
   \<and> isStdlibImport \<lparr>registry = Some (reg\<lparr>StdlibLoader := None\<rparr>)\<rparr> p
       = (CHR ''.'' \<notin> set p \<and> \<not> HasPrefix p ''internal/'')"
  by (auto simp: isStdlibImport_def isStdlibImportFallback_def Contains_char)

section \<open>Idempotence of the type normaliser\<close>

lemma strip_set: "set (stripQualifiers r) \<subseteq> set r"
  by (auto simp: stripQualifiers_def TrimPrefix_def dest: in_set_dropD)











section \<open>Import classification\<close>

lemma isSubpathOf_HasPrefix: "isSubpathOf p m \<Longrightarrow> HasPrefix p m"
proof -
  assume "isSubpathOf p m"
  then consider "p = m" | "take (Suc (length m)) p = m @ ''/''"
    by (auto simp: isSubpathOf_def HasPrefix_def)
  then show ?thesis
  proof cases
    case 1
    then show ?thesis by (simp add: HasPrefix_def)
  next
    case 2
    then have "take (length m) (take (Suc (length m)) p) = take (length m) (m @ ''/'')"
      by simp
    then show ?thesis by (simp add: HasPrefix_def)
  qed
qed

text \<open>
  Claim C6, as stated, fails in two places where the code has a guard of its own.  With
  no loader attached, \<open>ClassifyImport\<close> asks the fallback heuristic, so \<open>fmt\<close> is
  classified stdlib although no loader validated it (the case of
  \<open>TestGoImportResolver_NilRegistry\<close>).  And a registry whose module path is empty has
  no local packages but the relative ones (the test \<open>ModulePath != ""\<close>).
\<close>

theorem ClassifyImport_fallback_counterexample:
  "ClassifyImport \<lparr>registry = None\<rparr> ''fmt'' = ImportStdlib
   \<and> ClassifyImport_spec \<lparr>registry = None\<rparr> ''fmt'' = ImportThirdParty
   \<and> ClassifyImport (moduleResolver []) ''/x'' = ImportThirdParty
   \<and> ClassifyImport_spec (moduleResolver []) ''/x'' = ImportLocal"
  by (simp add: ClassifyImport_def ClassifyImport_spec_def isStdlibImport_def
        isStdlibImportFallback_def HasPrefix_def resolverLoader_def moduleResolver_def
        mkRegistry_def mockStdlibLoader_def isSubpathOf_def)

text \<open>
  Beside these, the module test of \<open>ClassifyImport\<close> is a test for a string prefix, with
  no regard to the path boundary: under the module \<open>github.com/example/test\<close> the
  package \<open>github.com/example/testing/x\<close> of another module is classified local.  The
  test file calls the local case "same module" and the other "same prefix but different
  module".
\<close>

lemma ClassifyImport_sibling_module:
  "ClassifyImport (moduleResolver ''github.com/example/test'') ''github.com/example/testing/x''
     = ImportLocal
   \<and> ClassifyImport_spec (moduleResolver ''github.com/example/test'')
        ''github.com/example/testing/x'' = ImportThirdParty
   \<and> prefixOffBoundary (moduleResolver ''github.com/example/test'')
        ''github.com/example/testing/x''"
  by (simp add: ClassifyImport_def ClassifyImport_spec_def isStdlibImport_def
        HasPrefix_def resolverLoader_def moduleResolver_def mkRegistry_def
        mockStdlibLoader_def isSubpathOf_def prefixOffBoundary_def)

lemma ClassifyImport_myapp:
  "\<not> prefixOffBoundary (moduleResolver ''github.com/example/myapp'')
        ''github.com/example/myapp/handlers''"
  "\<not> prefixOffBoundary (moduleResolver ''github.com/example/myapp'')
        ''github.com/example/otherapp/handlers''"
  "\<not> prefixOffBoundary \<lparr>registry = None\<rparr> ''fmt''"
  "resolverLoader (moduleResolver ''github.com/example/myapp'') \<noteq> None"
  by (simp_all add: HasPrefix_def resolverLoader_def moduleResolver_def mkRegistry_def
        mockStdlibLoader_def isSubpathOf_def prefixOffBoundary_def)

text \<open>
  Claim C6, amended.  On every import path whose module test stays on the path boundary,
  \<open>ClassifyImport\<close> returns stdlib when the attached loader validates the path or, with
  no loader attached, when the fallback heuristic accepts it; otherwise local when the
  path starts with \<open>.\<close> or is a prefix-subpath of the module's own, non-empty path;
  otherwise third-party.  With a loader attached and the module path set, this is the
  rule of the specification.
\<close>

theorem ClassifyImport_rule:
  assumes "\<not> prefixOffBoundary r p"
  shows "ClassifyImport r p =
           (if (case resolverLoader r of
                  None \<Rightarrow> isStdlibImportFallback r p
                | Some loader \<Rightarrow> ValidateStdlibImport loader p) then ImportStdlib
            else if HasPrefix p ''.''
                    \<or> (case registry r of
                          None \<Rightarrow> False
                        | Some reg \<Rightarrow> ModulePath reg \<noteq> [] \<and> isSubpathOf p (ModulePath reg))
              then ImportLocal
            else ImportThirdParty)
       \<and> (resolverLoader r \<noteq> None \<and> (\<forall>reg. registry r = Some reg \<longrightarrow> ModulePath reg \<noteq> [])
            \<longrightarrow> ClassifyImport r p = ClassifyImport_spec r p)"
  using assms isSubpathOf_HasPrefix
  by (auto simp: ClassifyImport_def ClassifyImport_spec_def isStdlibImport_def
        resolverLoader_def prefixOffBoundary_def split: option.splits)

theorem ClassifyImport_rule_witness:
  "\<not> prefixOffBoundary (moduleResolver ''github.com/example/myapp'')
        ''github.com/example/myapp/handlers''
   \<and> ClassifyImport (moduleResolver ''github.com/example/myapp'')
        ''github.com/example/myapp/handlers'' = ImportLocal
   \<and> resolverLoader (moduleResolver ''github.com/example/myapp'') \<noteq> None
   \<and> registry (moduleResolver ''github.com/example/myapp'')
       = Some (mkRegistry ''github.com/example/myapp'' [] (Some (mockStdlibLoader [''fmt''] [])))
   \<and> ClassifyImport_spec (moduleResolver ''github.com/example/myapp'')
        ''github.com/example/myapp/handlers'' = ImportLocal
   \<and> \<not> prefixOffBoundary (moduleResolver ''github.com/example/myapp'')
        ''github.com/example/otherapp/handlers''
   \<and> ClassifyImport (moduleResolver ''github.com/example/myapp'')
        ''github.com/example/otherapp/handlers'' = ImportThirdParty
   \<and> \<not> prefixOffBoundary \<lparr>registry = None\<rparr> ''fmt''
   \<and> ClassifyImport \<lparr>registry = None\<rparr> ''fmt'' = ImportStdlib"
  using ClassifyImport_rule [OF ClassifyImport_myapp(1)]
        ClassifyImport_rule [OF ClassifyImport_myapp(2)]
        ClassifyImport_rule [OF ClassifyImport_myapp(3)]
        ClassifyImport_myapp
  by (simp add: ClassifyImport_spec_def HasPrefix_def resolverLoader_def moduleResolver_def
        mkRegistry_def mockStdlibLoader_def isSubpathOf_def isStdlibImportFallback_def)

section \<open>Return type lookup\<close>

lemma stdlibFirstReturn_find:
  "stdlibFirstReturn ip rets =
     (case List.find (\<lambda>ret. Type ret \<noteq> [] \<and> Type ret \<noteq> ''error''
                              \<and> stdlibNormalizeType (Type ret) ip \<noteq> []) rets of
        None \<Rightarrow> None
      | Some ret \<Rightarrow> Some \<lparr>TypeFQN = stdlibNormalizeType (Type ret) ip, Confidence = 1,
                           Source = ''stdlib''\<rparr>)"
  by (induction rets) (auto simp: Let_def)

lemma LastIndex_os_Weird: "LastIndex ''os.Weird'' ''.'' = 2"
  by (simp add: LastIndex_def HasPrefix_def upt_rec[of 0])

lemma GetReturnType_local_wins:
  "ReturnTypes e fqn = Some typeInfo \<Longrightarrow> GetReturnType e fqn = Some typeInfo"
  by (simp add: GetReturnType_def)

text \<open>
  Claim C2, as stated, fails: a return whose raw type is non-empty and not \<open>error\<close> but
  normalises to the empty string (\<open>[]\<close>) is skipped too, and the next one is taken.  The
  input is the one of \<open>TestGetReturnType_StdlibFallback_EmptyTypeFQNSkipped\<close>.
\<close>

theorem GetReturnType_skips_empty_normal_form:
  "GetReturnType weirdEngine ''os.Weird''
     = Some \<lparr>TypeFQN = ''os.File'', Confidence = 1, Source = ''stdlib''\<rparr>
   \<and> GetReturnType_spec weirdEngine ''os.Weird''
     = Some \<lparr>TypeFQN = [], Confidence = 1, Source = ''stdlib''\<rparr>"
  by (simp add: GetReturnType_def GetReturnType_spec_def weirdEngine_def
        NewGoTypeInferenceEngine_def mkRegistry_def mockStdlibLoader_def engineLoader_def
        LastIndex_os_Weird stdlibNormalizeType_def TrimPrefix_def HasPrefix_def
        builtinTypeNames_def)

text \<open>
  Claim C2, amended.  \<open>GetReturnType\<close> returns the local entry when there is one.  On a
  local miss with a loader attached, and the last \<open>.\<close> of the FQN at an index above 0, it
  validates the prefix, and returns the normalised form of the first return whose raw type
  is non-empty, is not \<open>error\<close> and has a non-empty normal form, with source \<open>stdlib\<close>
  and confidence 1.0.  In every other case it reports not-found.
\<close>

theorem GetReturnType_rule:
  "GetReturnType e fqn =
     (case ReturnTypes e fqn of
        Some typeInfo \<Rightarrow> Some typeInfo
      | None \<Rightarrow>
         (case engineLoader e of
            None \<Rightarrow> None
          | Some loader \<Rightarrow>
              if LastIndex fqn ''.'' \<le> 0 then None
              else if ValidateStdlibImport loader (take (nat (LastIndex fqn ''.'')) fqn)
              then (case GetFunction loader (take (nat (LastIndex fqn ''.'')) fqn)
                           (drop (nat (LastIndex fqn ''.'') + 1) fqn) of
                      Inl err \<Rightarrow> None
                    | Inr fn \<Rightarrow>
                       (case List.find
                               (\<lambda>ret. Type ret \<noteq> [] \<and> Type ret \<noteq> ''error''
                                  \<and> stdlibNormalizeType (Type ret)
                                       (take (nat (LastIndex fqn ''.'')) fqn) \<noteq> [])
                               (Returns fn) of
                          None \<Rightarrow> None
                        | Some ret \<Rightarrow>
                            Some \<lparr>TypeFQN = stdlibNormalizeType (Type ret)
                                              (take (nat (LastIndex fqn ''.'')) fqn),
                                  Confidence = 1, Source = ''stdlib''\<rparr>))
              else None))"
  by (simp add: GetReturnType_def engineLoader_def stdlibFirstReturn_find Let_def
        split: option.splits sum.splits)

section \<open>The stdlib flag of a call site\<close>

text \<open>
  Claim C1.  \<open>resolveGoCallTarget\<close> sets \<open>isStdlib\<close> only when a loader is attached and
  validates the import path that the call's package alias is bound to; with no loader
  attached \<open>isStdlib\<close> is false for every call site.
\<close>

theorem isStdlib_only_by_loader:
  "(snd (snd (resolveGoCallTarget cs im reg vt isB pkg)) \<longrightarrow>
      (\<exists>loader ip. StdlibLoader reg = Some loader \<and> Imports im (ObjectName cs) = Some ip
         \<and> fst (resolveGoCallTarget cs im reg vt isB pkg) = ip @ ''.'' @ FunctionName cs
         \<and> ValidateStdlibImport loader ip))
   \<and> (StdlibLoader reg = None \<longrightarrow> \<not> snd (snd (resolveGoCallTarget cs im reg vt isB pkg)))"
  by (auto simp: resolveGoCallTarget_def split: option.splits if_splits)

theorem isStdlib_only_by_loader_witness:
  "resolveGoCallTarget \<lparr>FunctionName = ''Println'', ObjectName = ''fmt''\<rparr>
      \<lparr>Imports = [''fmt'' \<mapsto> ''fmt'']\<rparr>
      (mkRegistry [] [] (Some (mockStdlibLoader [''fmt'', ''os'', ''net/http'', ''strings''] [])))
      Map.empty (\<lambda>f. False) ''main'' = (''fmt.Println'', True, True)
   \<and> StdlibLoader (mkRegistry [] [] None) = None
   \<and> resolveGoCallTarget \<lparr>FunctionName = ''Println'', ObjectName = ''fmt''\<rparr>
      \<lparr>Imports = [''fmt'' \<mapsto> ''fmt'']\<rparr> (mkRegistry [] [] None)
      Map.empty (\<lambda>f. False) ''main'' = (''fmt.Println'', True, False)"
  using isStdlib_only_by_loader
          [of "\<lparr>FunctionName = ''Println'', ObjectName = ''fmt''\<rparr>"
              "\<lparr>Imports = [''fmt'' \<mapsto> ''fmt'']\<rparr>"
              "mkRegistry [] [] (Some (mockStdlibLoader [''fmt'', ''os'', ''net/http'', ''strings''] []))"
              Map.empty "\<lambda>f. False" "''main''"]
        isStdlib_only_by_loader
          [of "\<lparr>FunctionName = ''Println'', ObjectName = ''fmt''\<rparr>"
              "\<lparr>Imports = [''fmt'' \<mapsto> ''fmt'']\<rparr>"
              "mkRegistry [] [] None"
              Map.empty "\<lambda>f. False" "''main''"]
  by (simp add: resolveGoCallTarget_def mkRegistry_def mockStdlibLoader_def)

section \<open>Toolchain version detection\<close>

lemma SplitByte_nonempty: "SplitByte c s \<noteq> []"
  by (induction s) (auto split: list.splits)

lemma SplitByte_length: "length (SplitByte c s) = Suc (length (filter (\<lambda>x. x = c) s))"
  by (induction s) (auto split: list.splits simp: SplitByte_nonempty)

lemma SplitByte_no_sep: "c \<notin> set a \<Longrightarrow> SplitByte c a = [a]"
  by (induction a) auto

lemma SplitByte_append: "c \<notin> set a \<Longrightarrow> SplitByte c (a @ c # r) = a # SplitByte c r"
  by (induction a) auto

lemma SplitByte_parts: "p \<in> set (SplitByte c s) \<Longrightarrow> c \<notin> set p"
  by (induction s arbitrary: p) (auto split: if_splits list.splits)

lemma SplitByte_two: "SplitByte c s = [a, b] \<Longrightarrow> s = a @ c # b"
proof (induction s arbitrary: a)
  case Nil
  then show ?case by simp
next
  case (Cons x xs)
  show ?case
  proof (cases "x = c")
    case True
    with Cons.prems have "a = []" "SplitByte c xs = [b]" by auto
    moreover from this have "c \<notin> set xs"
      using SplitByte_length[of c xs] by (auto simp: filter_empty_conv)
    ultimately show ?thesis using True SplitByte_no_sep[of c xs] by simp
  next
    case False
    with Cons.prems obtain p where p: "SplitByte c xs = [p, b]" "a = x # p"
      by (auto split: list.splits)
    from Cons.IH[OF p(1)] p(2) show ?thesis by simp
  qed
qed

lemma normalize_majorMinor: "isMajorMinor v \<Longrightarrow> normalizeGoVersion v = v"
  by (auto simp: isMajorMinor_def normalizeGoVersion_def split: list.splits dest: SplitByte_two)

lemma digit_not_dot: "isDigit c \<Longrightarrow> c \<noteq> CHR ''.''"
  by (auto simp: isDigit_def)

lemma digits_majorMinor:
  assumes "d1 \<noteq> []" "list_all isDigit d1" "d2 \<noteq> []" "list_all isDigit d2"
  shows "isMajorMinor (d1 @ ''.'' @ d2)"
proof -
  have "CHR ''.'' \<notin> set d1" "CHR ''.'' \<notin> set d2"
    using assms digit_not_dot by (auto simp: list_all_iff)
  then have "SplitByte (CHR ''.'') (d1 @ ''.'' @ d2) = [d1, d2]"
    by (simp add: SplitByte_append SplitByte_no_sep)
  with assms show ?thesis by (simp add: isMajorMinor_def)
qed

lemma takeWhile_all: "list_all P (takeWhile P xs)"
  by (induction xs) auto

lemma matchGoDirective_majorMinor: "matchGoDirective s = Some v \<Longrightarrow> isMajorMinor v"
  by (auto simp: matchGoDirective_def Let_def takeWhile_all split: if_splits list.splits
      intro!: digits_majorMinor[simplified])

lemma findGoDirective_majorMinor: "findGoDirective b s = Some v \<Longrightarrow> isMajorMinor v"
  by (induction b s rule: findGoDirective.induct)
     (auto split: option.splits if_splits dest: matchGoDirective_majorMinor)

lemma parseGoVersionFromFile_majorMinor:
  "parseGoVersionFromFile fs path \<noteq> [] \<Longrightarrow> isMajorMinor (parseGoVersionFromFile fs path)"
  by (auto simp: parseGoVersionFromFile_def split: sum.splits option.splits
      dest: findGoDirective_majorMinor)

lemma normalize_dots: "length (filter (\<lambda>x. x = CHR ''.'') (normalizeGoVersion v)) \<le> 1"
proof (cases "length (SplitByte (CHR ''.'') v) \<ge> 2")
  case True
  then have "SplitByte (CHR ''.'') v ! 0 \<in> set (SplitByte (CHR ''.'') v)"
    "SplitByte (CHR ''.'') v ! 1 \<in> set (SplitByte (CHR ''.'') v)"
    by (auto intro!: nth_mem)
  then have "CHR ''.'' \<notin> set (SplitByte (CHR ''.'') v ! 0)" "CHR ''.'' \<notin> set (SplitByte (CHR ''.'') v ! 1)"
    by (auto dest: SplitByte_parts)
  then have "filter (\<lambda>x. x = CHR ''.'') (SplitByte (CHR ''.'') v ! 0) = []"
     "filter (\<lambda>x. x = CHR ''.'') (SplitByte (CHR ''.'') v ! 1) = []"
    by (auto simp: filter_empty_conv)
  with True show ?thesis by (simp add: normalizeGoVersion_def Let_def)
next
  case False
  then show ?thesis using SplitByte_length[of "CHR ''.''" v]
    by (simp add: normalizeGoVersion_def Let_def)
qed

lemma isMajorMinor_dots: "isMajorMinor v \<Longrightarrow> length (filter (\<lambda>x. x = CHR ''.'') v) \<le> 1"
  using normalize_dots[of v] by (simp add: normalize_majorMinor)

text \<open>
  Claim C9, evaluated on the code.  The doc comment of \<open>DetectGoVersion\<close> says that all
  returned values are normalised to the form X.Y, and the values of go.mod and go.work
  are (the regular expression admits nothing else).  The value read from \<open>.go-version\<close>
  is only cut to its first two dot-separated components: a pin file holding \<open>1\<close> yields
  \<open>1\<close>, and one holding \<open>1.21rc2\<close> yields \<open>1.21rc2\<close>, neither of the form major.minor.
\<close>

theorem DetectGoVersion_pin_not_major_minor:
  "DetectGoVersion fsPinOne ''/p'' = ''1''
   \<and> \<not> isMajorMinor (DetectGoVersion fsPinOne ''/p'')
   \<and> DetectGoVersion fsPinRc ''/p'' = ''1.21rc2''
   \<and> \<not> isMajorMinor (DetectGoVersion fsPinRc ''/p'')"
  by code_simp

text \<open>
  The rest of the claim holds on the code.  \<open>DetectGoVersion\<close> follows the four-step
  chain: the directive of go.mod; else the pin file .go-version; else the directive of
  go.work; else \<open>1.21\<close>.  A value taken from go.mod or go.work, and the default, is in
  major.minor form.  No returned value is empty or has more than one dot.
\<close>

theorem DetectGoVersion_chain:
  "(parseGoVersionFromFile fs (Join fs p ''go.mod'') \<noteq> [] \<longrightarrow>
      DetectGoVersion fs p = parseGoVersionFromFile fs (Join fs p ''go.mod'')
      \<and> isMajorMinor (DetectGoVersion fs p))
 \<and> (parseGoVersionFromFile fs (Join fs p ''go.mod'') = [] \<and> readGoVersionFile fs p \<noteq> [] \<longrightarrow>
      DetectGoVersion fs p = readGoVersionFile fs p
      \<and> (\<exists>data. ReadFile fs (Join fs p ''.go-version'') = Inr data
             \<and> DetectGoVersion fs p = normalizeGoVersion (TrimSpace data)))
 \<and> (parseGoVersionFromFile fs (Join fs p ''go.mod'') = [] \<and> readGoVersionFile fs p = []
      \<and> parseGoVersionFromFile fs (Join fs p ''go.work'') \<noteq> [] \<longrightarrow>
      DetectGoVersion fs p = parseGoVersionFromFile fs (Join fs p ''go.work'')
      \<and> isMajorMinor (DetectGoVersion fs p))
 \<and> (parseGoVersionFromFile fs (Join fs p ''go.mod'') = [] \<and> readGoVersionFile fs p = []
      \<and> parseGoVersionFromFile fs (Join fs p ''go.work'') = [] \<longrightarrow>
      DetectGoVersion fs p = ''1.21'' \<and> isMajorMinor (DetectGoVersion fs p))
 \<and> length (filter (\<lambda>c. c = CHR ''.'') (DetectGoVersion fs p)) \<le> 1
 \<and> DetectGoVersion fs p \<noteq> []"
proof -
  let ?m = "parseGoVersionFromFile fs (Join fs p ''go.mod'')"
  let ?w = "parseGoVersionFromFile fs (Join fs p ''go.work'')"
  have m: "?m \<noteq> [] \<Longrightarrow> isMajorMinor ?m \<and> normalizeGoVersion ?m = ?m"
    using parseGoVersionFromFile_majorMinor normalize_majorMinor by blast
  have w: "?w \<noteq> [] \<Longrightarrow> isMajorMinor ?w \<and> normalizeGoVersion ?w = ?w"
    using parseGoVersionFromFile_majorMinor normalize_majorMinor by blast
  have pin: "readGoVersionFile fs p \<noteq> [] \<Longrightarrow>
     \<exists>data. ReadFile fs (Join fs p ''.go-version'') = Inr data
             \<and> readGoVersionFile fs p = normalizeGoVersion (TrimSpace data)"
    by (auto simp: readGoVersionFile_def split: sum.splits)
  have d: "length (filter (\<lambda>c. c = CHR ''.'') (readGoVersionFile fs p)) \<le> 1"
    using normalize_dots by (auto simp: readGoVersionFile_def split: sum.splits)
  have dflt: "isMajorMinor ''1.21''"
    by (simp add: isMajorMinor_def isDigit_def)
  show ?thesis
    using m w pin d dflt isMajorMinor_dots[of ?m] isMajorMinor_dots[of ?w]
    by (auto simp: DetectGoVersion_def Let_def defaultGoVersion_def)
qed


lemma version_scenarios:
  "normalizeGoVersion ''1.21.4'' = ''1.21''"
  "parseGoVersionFromFile fsGoMod (Join fsGoMod ''/p'' ''go.mod'') = ''1.24''"
  "parseGoVersionFromFile fsPin (Join fsPin ''/p'' ''go.mod'') = []"
  "readGoVersionFile fsPin ''/p'' = ''1.22''"
  "parseGoVersionFromFile fsWork (Join fsWork ''/p'' ''go.mod'') = []"
  "readGoVersionFile fsWork ''/p'' = []"
  "parseGoVersionFromFile fsWork (Join fsWork ''/p'' ''go.work'') = ''1.23''"
  "parseGoVersionFromFile fsEmpty (Join fsEmpty ''/p'' ''go.mod'') = []"
  "readGoVersionFile fsEmpty ''/p'' = []"
  "parseGoVersionFromFile fsEmpty (Join fsEmpty ''/p'' ''go.work'') = []"
  by code_simp+

text \<open>White space of more than one byte is trimmed as well: a pin file that holds only a
  no-break space and a line feed counts as empty, and go.work decides.\<close>

lemma DetectGoVersion_blank_pin:
  "TrimSpace [CHR 0xC2, CHR 0xA0, CHR 0x0A] = []
   \<and> TrimSpace ([CHR 0x20, CHR 0xE2, CHR 0x80, CHR 0x83] @ ''1.22.4'' @ [CHR 0xE3, CHR 0x80, CHR 0x80, CHR 0x0D, CHR 0x0A])
       = ''1.22.4''
   \<and> DetectGoVersion fsPinBlank ''/p'' = ''1.23''"
  by code_simp

theorem DetectGoVersion_chain_witness:
  "normalizeGoVersion ''1.21.4'' = ''1.21''
   \<and> parseGoVersionFromFile fsGoMod (Join fsGoMod ''/p'' ''go.mod'') \<noteq> []
   \<and> DetectGoVersion fsGoMod ''/p'' = ''1.24''
   \<and> parseGoVersionFromFile fsPin (Join fsPin ''/p'' ''go.mod'') = []
   \<and> readGoVersionFile fsPin ''/p'' \<noteq> []
   \<and> DetectGoVersion fsPin ''/p'' = ''1.22''
   \<and> parseGoVersionFromFile fsWork (Join fsWork ''/p'' ''go.mod'') = []
   \<and> readGoVersionFile fsWork ''/p'' = []
   \<and> parseGoVersionFromFile fsWork (Join fsWork ''/p'' ''go.work'') \<noteq> []
   \<and> DetectGoVersion fsWork ''/p'' = ''1.23''
   \<and> parseGoVersionFromFile fsEmpty (Join fsEmpty ''/p'' ''go.mod'') = []
   \<and> readGoVersionFile fsEmpty ''/p'' = []
   \<and> parseGoVersionFromFile fsEmpty (Join fsEmpty ''/p'' ''go.work'') = []
   \<and> DetectGoVersion fsEmpty ''/p'' = ''1.21''"
  using DetectGoVersion_chain[of fsGoMod "''/p''"] DetectGoVersion_chain[of fsPin "''/p''"] DetectGoVersion_chain[of fsWork "''/p''"] DetectGoVersion_chain[of fsEmpty "''/p''"]
  by (simp add: version_scenarios)

section \<open>Pass 2b on the scenario trees\<close>

text \<open>How the traversal and the inference act on the node builders of the fixtures.\<close>

lemma traverse_unfold:
  "traverseForVariableAssignments h node filePath packagePath cur te reg importMap =
     traverseChildren h (NamedChildren node) filePath packagePath
       (fst (visitNode h node filePath packagePath cur te reg importMap))
       (snd (visitNode h node filePath packagePath cur te reg importMap)) reg importMap"
  by (subst traverseForVariableAssignments.simps) (simp add: traverseChildren_def)

lemma traverseChildren_Nil:
  "traverseChildren h [] filePath packagePath cur te reg importMap = te"
  by (simp add: traverseChildren_def)

lemma traverseChildren_Cons:
  "traverseChildren h (c # cs) filePath packagePath cur te reg importMap =
     traverseChildren h cs filePath packagePath cur
       (traverseForVariableAssignments h c filePath packagePath cur te reg importMap) reg importMap"
  by (simp add: traverseChildren_def)

lemma branch_sel:
  "NodeType (branch ty text cs) = ty" "Content (branch ty text cs) = text"
  "NamedChildren (branch ty text cs) = map snd cs"
  by (simp_all add: branch_def)

lemma leaf_sel:
  "NodeType (leaf ty text) = ty" "Content (leaf ty text) = text"
  "NamedChildren (leaf ty text) = []" "ChildByFieldName (leaf ty text) f = None"
  by (simp_all add: leaf_def ChildByFieldName_def)

lemma visitNode_plain:
  "\<not> isContextOrAssignment (NodeType n) \<Longrightarrow> visitNode h n fp pkg cur e reg im = (cur, e)"
  by (simp add: visitNode_def isContextOrAssignment_def)

lemma traverse_plain:
  "\<not> isContextOrAssignment (NodeType n) \<Longrightarrow>
   traverseForVariableAssignments h n fp pkg cur e reg im
     = traverseChildren h (NamedChildren n) fp pkg cur e reg im"
  by (subst traverse_unfold) (simp add: visitNode_plain)

lemma traverse_leaf:
  "\<not> isContextOrAssignment ty \<Longrightarrow>
   traverseForVariableAssignments h (leaf ty text) fp pkg cur e reg im = e"
  by (simp add: traverse_plain leaf_sel traverseChildren_Nil)

lemma traverseChildren_leaves:
  "\<not> isContextOrAssignment ty \<Longrightarrow>
   traverseChildren h (map (leaf ty) names) fp pkg cur e reg im = e"
  by (induction names) (simp_all add: traverseChildren_Nil traverseChildren_Cons traverse_leaf)

lemma map_snd_None: "map (snd \<circ> Pair None) es = es"
  by (induction es) auto

lemma traverse_exprList:
  "traverseForVariableAssignments h (exprList es text) fp pkg cur e reg im
     = traverseChildren h es fp pkg cur e reg im"
  by (simp add: exprList_def traverse_plain branch_sel isContextOrAssignment_def map_snd_None)

lemma traverse_httpGetCall:
  "traverseForVariableAssignments h (httpGetCall arg) fp pkg cur e reg im = e"
  by (simp add: httpGetCall_def traverse_plain branch_sel isContextOrAssignment_def
        traverseChildren_Nil traverseChildren_Cons traverse_leaf)

lemma traverse_bareCall:
  "traverseForVariableAssignments h (bareCall name text args) fp pkg cur e reg im
     = traverseChildren h args fp pkg cur e reg im"
  by (simp add: bareCall_def traverse_plain branch_sel isContextOrAssignment_def
        traverseChildren_Nil traverseChildren_Cons traverse_leaf map_snd_None)

lemma traverse_funcDecl:
  "traverseForVariableAssignments h (funcDecl name stmts) fp pkg cur e reg im
     = traverseChildren h stmts fp pkg (pkg @ ''.'' @ name) e reg im"
proof -
  have v: "visitNode h (funcDecl name stmts) fp pkg cur e reg im = (pkg @ ''.'' @ name, e)"
    by (simp add: visitNode_def funcDecl_def branch_def ChildByFieldName_def leaf_def)
  have c: "NamedChildren (funcDecl name stmts)
        = [leaf ''identifier'' name, leaf ''parameter_list'' ''()'',
           branch ''block'' [] (map (\<lambda>st. (None, st)) stmts)]"
    by (simp add: funcDecl_def branch_def)
  show ?thesis
    by (subst traverse_unfold)
       (simp add: v c traverseChildren_Nil traverseChildren_Cons traverse_leaf traverse_plain
          branch_sel isContextOrAssignment_def map_snd_None)
qed

lemma traverse_sourceFile:
  "traverseForVariableAssignments h (sourceFile p decls) fp pkg cur e reg im
     = traverseChildren h decls fp pkg cur e reg im"
  by (simp add: sourceFile_def traverse_plain branch_sel isContextOrAssignment_def
        traverseChildren_Nil traverseChildren_Cons traverse_leaf map_snd_None)

lemma shortVarDecl_sel:
  "NodeType (shortVarDecl names rhs text) = ''short_var_declaration''"
  "Content (shortVarDecl names rhs text) = text"
  "ChildByFieldName (shortVarDecl names rhs text) ''left''
     = Some (exprList (map (leaf ''identifier'') names) [])"
  "ChildByFieldName (shortVarDecl names rhs text) ''right''
     = Some (exprList [rhs] (Content rhs))"
  "NamedChildren (shortVarDecl names rhs text)
     = [exprList (map (leaf ''identifier'') names) [], exprList [rhs] (Content rhs)]"
  by (simp_all add: shortVarDecl_def branch_def ChildByFieldName_def)

lemma assignStmt_sel:
  "NodeType (assignStmt names rhs text) = ''assignment_statement''"
  "Content (assignStmt names rhs text) = text"
  "ChildByFieldName (assignStmt names rhs text) ''left''
     = Some (exprList (map (leaf ''identifier'') names) [])"
  "ChildByFieldName (assignStmt names rhs text) ''right''
     = Some (exprList [rhs] (Content rhs))"
  "NamedChildren (assignStmt names rhs text)
     = [exprList (map (leaf ''identifier'') names) [], exprList [rhs] (Content rhs)]"
  by (simp_all add: assignStmt_def branch_def ChildByFieldName_def)

lemma exprList_sel:
  "NodeType (exprList es text) = ''expression_list''" "Content (exprList es text) = text"
  "NamedChildren (exprList es text) = es"
  by (simp_all add: exprList_def branch_def map_snd_None)

lemma traverse_shortVarDecl:
  "cur \<noteq> [] \<Longrightarrow>
   traverseForVariableAssignments h (shortVarDecl names rhs text) fp pkg cur e reg im
     = traverseForVariableAssignments h rhs fp pkg cur
         (processShortVarDeclaration h (shortVarDecl names rhs text) fp cur e reg im) reg im"
  by (subst traverse_unfold)
     (simp add: visitNode_def shortVarDecl_sel traverseChildren_Nil traverseChildren_Cons
        traverse_exprList traverseChildren_leaves isContextOrAssignment_def)

lemma traverse_assignStmt:
  "cur \<noteq> [] \<Longrightarrow>
   traverseForVariableAssignments h (assignStmt names rhs text) fp pkg cur e reg im
     = traverseForVariableAssignments h rhs fp pkg cur
         (processAssignmentStatement h (assignStmt names rhs text) fp cur e reg im) reg im"
  by (subst traverse_unfold)
     (simp add: visitNode_def assignStmt_sel traverseChildren_Nil traverseChildren_Cons
        traverse_exprList traverseChildren_leaves isContextOrAssignment_def)

lemma scenarioHelpers_sel:
  "ParseCtx (scenarioHelpers tree lines) src = Inr tree"
  "ParseShortVarDeclaration (scenarioHelpers tree lines) = assignmentVars lines"
  "ParseAssignment (scenarioHelpers tree lines) = assignmentVars lines"
  "Dir (scenarioHelpers tree lines) path = take (nat (LastIndex path ''/'')) path"
  "IsAbs (scenarioHelpers tree lines) path = HasPrefix path ''/''"
  by (simp_all add: scenarioHelpers_def)

lemma assignmentVars_shortVarDecl:
  "assignmentVars lines (shortVarDecl names rhs text)
     = map (\<lambda>n. \<lparr>Name = n, Value = Content rhs, LineNumber = lineOf lines text\<rparr>) names"
  by (simp add: assignmentVars_def shortVarDecl_sel exprList_sel leaf_sel lineOf_def comp_def)

lemma assignmentVars_assignStmt:
  "assignmentVars lines (assignStmt names rhs text)
     = map (\<lambda>n. \<lparr>Name = n, Value = Content rhs, LineNumber = lineOf lines text\<rparr>) names"
  by (simp add: assignmentVars_def assignStmt_sel exprList_sel leaf_sel lineOf_def comp_def)

lemma inferTypeFromRHS_exprList:
  "inferTypeFromRHS h (exprList (c # cs) text) fp fqn e reg im
     = inferTypeFromRHS h c fp fqn e reg im"
  by (subst inferTypeFromRHS.simps) (simp add: exprList_sel)

lemma inferTypeFromRHS_httpGetCall:
  "inferTypeFromRHS h (httpGetCall arg) fp fqn e reg im
     = inferTypeFromFunctionCall h (httpGetCall arg) fp e reg im"
  by (subst inferTypeFromRHS.simps) (simp add: httpGetCall_def branch_sel)

lemma inferTypeFromRHS_bareCall:
  "inferTypeFromRHS h (bareCall name text args) fp fqn e reg im
     = inferTypeFromFunctionCall h (bareCall name text args) fp e reg im"
  by (subst inferTypeFromRHS.simps) (simp add: bareCall_def branch_sel)

lemma inferTypeFromRHS_identifier:
  "inferTypeFromRHS h (leaf ''identifier'' x) fp fqn e reg im = inferTypeFromVariable x fqn e"
  by (subst inferTypeFromRHS.simps) (simp add: leaf_sel)

lemma inferTypeFromRHS_int:
  "inferTypeFromRHS h (leaf ''int_literal'' x) fp fqn e reg im = literalType ''builtin.int''"
  by (subst inferTypeFromRHS.simps) (simp add: leaf_sel)

lemma inferTypeFromRHS_float:
  "inferTypeFromRHS h (leaf ''float_literal'' x) fp fqn e reg im = literalType ''builtin.float64''"
  by (subst inferTypeFromRHS.simps) (simp add: leaf_sel)

lemma processShortVarDeclaration_scenario:
  "processShortVarDeclaration (scenarioHelpers tree lines) (shortVarDecl (n # ns) rhs text)
       fp fqn e reg im
     = fold (processShortVarStep (scenarioHelpers tree lines) (exprList [rhs] (Content rhs))
               fp fqn reg im)
         (map (\<lambda>n. \<lparr>Name = n, Value = Content rhs, LineNumber = lineOf lines text\<rparr>) (n # ns)) e"
  by (simp add: processShortVarDeclaration_def scenarioHelpers_sel assignmentVars_shortVarDecl
        shortVarDecl_sel)

lemma processAssignmentStatement_scenario:
  "processAssignmentStatement (scenarioHelpers tree lines) (assignStmt (n # ns) rhs text)
       fp fqn e reg im
     = fold (processAssignmentStep (scenarioHelpers tree lines) (exprList [rhs] (Content rhs))
               fp fqn reg im)
         (map (\<lambda>n. \<lparr>Name = n, Value = Content rhs, LineNumber = lineOf lines text\<rparr>) (n # ns)) e"
  by (simp add: processAssignmentStatement_def scenarioHelpers_sel assignmentVars_assignStmt
        assignStmt_sel)

lemma processShortVarStep_exprList:
  "processShortVarStep h (exprList [rhs] text) fp fqn reg im v e =
     (if Name v = ''_'' then e
      else (case inferTypeFromRHS h rhs fp fqn e reg im of
              None \<Rightarrow> e
            | Some typeInfo \<Rightarrow> addBindingToScope e fqn (mkBinding v typeInfo fp)))"
  by (simp add: processShortVarStep_def inferTypeFromRHS_exprList)

lemma processAssignmentStep_exprList:
  "processAssignmentStep h (exprList [rhs] text) fp fqn reg im v e =
     (case inferTypeFromRHS h rhs fp fqn e reg im of
        None \<Rightarrow> e
      | Some typeInfo \<Rightarrow> addBindingToScope e fqn (mkBinding v typeInfo fp))"
  by (simp add: processAssignmentStep_def inferTypeFromRHS_exprList)

lemmas scenario_eval =
  traverse_sourceFile traverse_funcDecl traverse_shortVarDecl traverse_assignStmt
  traverse_httpGetCall traverse_bareCall traverse_leaf traverseChildren_Nil traverseChildren_Cons
  processShortVarDeclaration_scenario processAssignmentStatement_scenario
  processShortVarStep_exprList processAssignmentStep_exprList
  inferTypeFromRHS_httpGetCall inferTypeFromRHS_bareCall inferTypeFromRHS_identifier
  inferTypeFromRHS_int inferTypeFromRHS_float isContextOrAssignment_def

lemma LastIndex_app_main: "LastIndex ''/app/main.go'' ''/'' = 4"
  by code_simp

lemma LastIndex_http_Get: "LastIndex ''net/http.Get'' ''.'' = 8"
  by code_simp

lemma httpGet_infer:
  "Registry e = Some reg' \<Longrightarrow> StdlibLoader reg' = Some s1Loader \<Longrightarrow>
   ReturnTypes e ''net/http.Get'' = None \<Longrightarrow>
   inferTypeFromFunctionCall h (httpGetCall arg) fp e reg (Some s1Imports)
     = Some \<lparr>TypeFQN = ''net/http.Response'', Confidence = 1, Source = ''stdlib''\<rparr>"
  by (simp add: inferTypeFromFunctionCall_def httpGetCall_def branch_def leaf_def
        ChildByFieldName_def extractGoFunctionName_def s1Imports_def HasPrefix_def
        GetReturnType_def s1Loader_def mockStdlibLoader_def
        LastIndex_http_Get stdlibNormalizeType_def TrimPrefix_def builtinTypeNames_def)

lemma s1_eval:
  "s1Result =
     addBindingToScope (NewGoTypeInferenceEngine (Some s1Registry)) ''main.main''
       \<lparr>VarName = ''resp'',
         BindingType = Some \<lparr>TypeFQN = ''net/http.Response'', Confidence = 1, Source = ''stdlib''\<rparr>,
         AssignedFrom = ''http.Get(url)'', Location = \<lparr>File = ''/app/main.go'', Line = 4\<rparr>\<rparr>"
proof -
  have dir: "registryDirPath (scenarioHelpers t l) ''/app/main.go'' = ''/app''" for t l
    by (simp add: registryDirPath_def scenarioHelpers_sel LastIndex_app_main HasPrefix_def)
  have reg: "DirToImport s1Registry ''/app'' = Some ''main''"
    by (simp add: s1Registry_def mkRegistry_def)
  have c: "Content (httpGetCall ''url'') = ''http.Get(url)''"
    by (simp add: httpGetCall_def branch_sel)
  have i: "inferTypeFromFunctionCall h (httpGetCall arg) fp
             (NewGoTypeInferenceEngine (Some s1Registry)) reg (Some s1Imports)
     = Some \<lparr>TypeFQN = ''net/http.Response'', Confidence = 1, Source = ''stdlib''\<rparr>"
    for h arg fp reg
    by (rule httpGet_infer[where reg'=s1Registry])
       (simp_all add: NewGoTypeInferenceEngine_def s1Registry_def mkRegistry_def)
  show ?thesis
    unfolding s1Result_def ExtractGoVariableAssignments_def
    by (simp add: dir reg s1Helpers_def scenarioHelpers_sel s1Tree_def scenario_eval i
          mkBinding_def lineOf_def c)
qed

section \<open>Bindings are appended in traversal order\<close>

lemma scopeBindings_add:
  "scopeBindings (addBindingToScope e fqn b) fqn' n =
     scopeBindings e fqn' n @ (if fqn' = fqn \<and> n = VarName b then [b] else [])"
  by (auto simp: scopeBindings_def addBindingToScope_def GetScope_def AddScope_def AddVariable_def
        GetAllBindings_def NewGoFunctionScope_def Let_def split: option.splits)











section \<open>Scenario S1: the binding of \<open>resp\<close>\<close>

text \<open>
  Claim C3, evaluated on the code.  In scenario S1, with the engine created over the
  registry that holds the loader, the latest binding of \<open>resp\<close> in \<open>main.main\<close> has type
  \<open>net/http.Response\<close> but source \<open>stdlib\<close> and confidence 1.0: \<open>GetReturnType\<close>
  answers from the loader before \<open>inferTypeFromStdlibFunction\<close> is reached.
\<close>

theorem s1_resp_binding_is_stdlib:
  "map_option BindingType (latestBinding s1Result ''main.main'' ''resp'')
   = Some (Some \<lparr>TypeFQN = ''net/http.Response'', Confidence = 1, Source = ''stdlib''\<rparr>)"
  by (simp add: s1_eval latestBinding_def addBindingToScope_def GetScope_def AddScope_def AddVariable_def
        NewGoFunctionScope_def NewGoTypeInferenceEngine_def GetAllBindings_def GetVariable_def Let_def)

text \<open>When the engine holds no registry, the fallback of Pass 2b is reached and gives the
  source \<open>stdlib_registry\<close> with confidence 0.9.\<close>

lemma s1_detached:
  "inferTypeFromFunctionCall h (httpGetCall arg) fp (NewGoTypeInferenceEngine None) s1Registry (Some s1Imports)
     = Some \<lparr>TypeFQN = ''net/http.Response'', Confidence = 9 / 10, Source = ''stdlib_registry''\<rparr>"
  by (simp add: inferTypeFromFunctionCall_def httpGetCall_def branch_def leaf_def
        ChildByFieldName_def extractGoFunctionName_def s1Imports_def HasPrefix_def
        GetReturnType_def NewGoTypeInferenceEngine_def inferTypeFromStdlibFunction_def
        s1Registry_def mkRegistry_def s1Loader_def mockStdlibLoader_def
        LastIndex_http_Get normalizeStdlibReturnType_def TrimPrefix_def builtinTypeNames_def)

section \<open>The blank identifier\<close>

lemma shortVarStep_blank:
  "scopeBindings (processShortVarStep h rhs fp fqn reg im v e) fqn' ''_'' = scopeBindings e fqn' ''_''"
  by (auto simp: processShortVarStep_def scopeBindings_add mkBinding_def split: option.splits)

lemma shortVarFold_blank:
  "scopeBindings (fold (processShortVarStep h rhs fp fqn reg im) vs e) fqn' ''_''
     = scopeBindings e fqn' ''_''"
  by (induction vs arbitrary: e) (simp_all add: shortVarStep_blank)

lemma processShortVarDeclaration_skips_blank:
  "scopeBindings (processShortVarDeclaration h node fp fqn e reg im) fqn' ''_''
     = scopeBindings e fqn' ''_''"
  by (simp add: processShortVarDeclaration_def Let_def shortVarFold_blank split: option.splits)

lemma LastIndex_test_main: "LastIndex ''/test/main.go'' ''/'' = 5"
  by code_simp

lemma blank_eval:
  "blankResult =
     addBindingToScope
       (addBindingToScope (NewGoTypeInferenceEngine (Some blankRegistry)) ''test.Handler''
          \<lparr>VarName = ''resp'',
            BindingType = Some \<lparr>TypeFQN = ''net/http.Response'', Confidence = 1, Source = ''stdlib''\<rparr>,
            AssignedFrom = ''http.Get(url)'', Location = \<lparr>File = ''/test/main.go'', Line = 6\<rparr>\<rparr>)
       ''test.Handler''
       \<lparr>VarName = ''_'',
         BindingType = Some \<lparr>TypeFQN = ''net/http.Response'', Confidence = 1, Source = ''stdlib''\<rparr>,
         AssignedFrom = ''resp'', Location = \<lparr>File = ''/test/main.go'', Line = 7\<rparr>\<rparr>"
proof -
  have d: "registryDirPath (scenarioHelpers t l) ''/test/main.go'' = ''/test''" for t l
    by (simp add: registryDirPath_def scenarioHelpers_sel LastIndex_test_main HasPrefix_def)
  have reg: "DirToImport blankRegistry ''/test'' = Some ''test''"
    by (simp add: blankRegistry_def mkRegistry_def)
  have c: "Content (httpGetCall ''url'') = ''http.Get(url)''"
    by (simp add: httpGetCall_def branch_sel)
  have i: "inferTypeFromFunctionCall h (httpGetCall arg) fp (NewGoTypeInferenceEngine (Some blankRegistry))
             reg (Some s1Imports)
     = Some \<lparr>TypeFQN = ''net/http.Response'', Confidence = 1, Source = ''stdlib''\<rparr>" for h arg fp reg
    by (rule httpGet_infer[where reg'=blankRegistry])
       (simp_all add: NewGoTypeInferenceEngine_def blankRegistry_def mkRegistry_def)
  have v: "inferTypeFromVariable ''resp'' ''test.Handler''
             (addBindingToScope (NewGoTypeInferenceEngine r) ''test.Handler''
                \<lparr>VarName = ''resp'', BindingType = Some ti, AssignedFrom = a, Location = loc\<rparr>)
           = Some ti" for r ti a loc
    by (simp add: inferTypeFromVariable_def addBindingToScope_def GetScope_def AddScope_def
          AddVariable_def NewGoFunctionScope_def NewGoTypeInferenceEngine_def GetAllBindings_def Let_def)
  show ?thesis
    unfolding blankResult_def ExtractGoVariableAssignments_def
    by (simp add: d reg scenarioHelpers_sel blankTree_def scenario_eval
          mkBinding_def lineOf_def leaf_sel c i v)
qed

text \<open>
  Claim C4, evaluated on the code.  A short variable declaration never binds \<open>_\<close>
  (\<open>processShortVarDeclaration_skips_blank\<close>), but \<open>processAssignmentStatement\<close> has no
  such test: for \<open>_ = resp\<close> after \<open>resp, _ := http.Get(url)\<close> the scope of
  \<open>test.Handler\<close> receives a binding named \<open>_\<close>.
\<close>

theorem blank_bound_by_assignment:
  "scopeBindings blankResult ''test.Handler'' ''_'' =
     [\<lparr>VarName = ''_'',
       BindingType = Some \<lparr>TypeFQN = ''net/http.Response'', Confidence = 1, Source = ''stdlib''\<rparr>,
       AssignedFrom = ''resp'', Location = \<lparr>File = ''/test/main.go'', Line = 7\<rparr>\<rparr>]"
  by (simp add: blank_eval scopeBindings_add)
     (simp add: scopeBindings_def GetScope_def NewGoTypeInferenceEngine_def)

section \<open>The latest binding and the source line\<close>

lemma registryDirPath_app_main:
  "registryDirPath (scenarioHelpers t l) ''/app/main.go'' = ''/app''"
  by (simp add: registryDirPath_def scenarioHelpers_sel LastIndex_app_main HasPrefix_def)

lemma bareCall_infer:
  "\<not> Contains name ''.'' \<Longrightarrow> name \<noteq> [] \<Longrightarrow> DirToImport reg (Dir h fp) = Some pkg \<Longrightarrow>
   GetReturnType e (pkg @ ''.'' @ name) = Some ti \<Longrightarrow>
   inferTypeFromFunctionCall h (bareCall name text args) fp e reg im = Some ti"
  by (simp add: inferTypeFromFunctionCall_def bareCall_def branch_def ChildByFieldName_def leaf_def
        extractGoFunctionName_def)

lemma GetReturnType_add:
  "GetReturnType (addBindingToScope e fqn b) f = GetReturnType e f"
  by (simp add: GetReturnType_def addBindingToScope_def AddScope_def Let_def split: option.splits)

lemma s4_types:
  "GetReturnType s4Engine ''pkg.GetUser'' = Some userType"
  "GetReturnType s4Engine ''pkg.NewUser'' = Some userType"
  by (simp_all add: GetReturnType_def s4Engine_def AddReturnType_def)

lemma s4_eval:
  "s4Result = addBindingToScope (addBindingToScope s4Engine ''pkg.Handle'' (s4Binding ''GetUser(1)'' 10))
      ''pkg.Handle'' (s4Binding ''NewUser()'' 20)"
proof -
  have reg: "DirToImport s4Registry ''/app'' = Some ''pkg''"
    by (simp add: s4Registry_def mkRegistry_def)
  have d: "Dir (scenarioHelpers t l) ''/app/main.go'' = ''/app''" for t l
    by (simp add: scenarioHelpers_sel LastIndex_app_main)
  have c: "Content (bareCall n t a) = t" for n t a
    by (simp add: bareCall_def branch_sel)
  have i1: "inferTypeFromFunctionCall (scenarioHelpers t l) (bareCall ''GetUser'' tx a) ''/app/main.go'' s4Engine s4Registry None = Some userType" for t l tx a
    by (rule bareCall_infer[where pkg="''pkg''"])
       (simp_all add: HasPrefix_def d reg s4_types)
  have i2: "inferTypeFromFunctionCall (scenarioHelpers t l) (bareCall ''NewUser'' tx a) ''/app/main.go'' 
      (addBindingToScope s4Engine fqn b) s4Registry None = Some userType" for t l tx a fqn b
    by (rule bareCall_infer[where pkg="''pkg''"])
       (simp_all add: HasPrefix_def d reg s4_types GetReturnType_add)
  show ?thesis
    unfolding s4Result_def ExtractGoVariableAssignments_def
    by (simp add: registryDirPath_app_main reg s4Helpers_def scenarioHelpers_sel s4Tree_def scenario_eval
          mkBinding_def lineOf_def c i1 i2 s4Binding_def)
qed

lemma s4_bindings:
  "scopeBindings s4Result ''pkg.Handle'' ''u'' = [s4Binding ''GetUser(1)'' 10, s4Binding ''NewUser()'' 20]"
  "scopeBindings s4Result fqn n = [] \<or> (fqn = ''pkg.Handle'' \<and> n = ''u'')"
  by (auto simp add: s4_eval scopeBindings_add s4Binding_def)
     (simp_all add: scopeBindings_def GetScope_def s4Engine_def AddReturnType_def NewGoTypeInferenceEngine_def)













section \<open>Files outside the registry\<close>

lemma LastIndex_vendor: "LastIndex ''/vendor/dep/dep.go'' ''/'' = 11"
  by code_simp

text \<open>
  Claim C10.  When the directory of the file is not a key of \<open>DirToImport\<close>, and the
  parser has produced a tree, \<open>ExtractGoVariableAssignments\<close> returns nil and the engine
  is the one it was given.
\<close>

theorem Extract_unregistered_dir:
  "DirToImport reg (registryDirPath h filePath) = None \<Longrightarrow> ParseCtx h sourceCode = Inr rootNode \<Longrightarrow>
   ExtractGoVariableAssignments h filePath sourceCode e reg im = (None, e)"
  by (simp add: ExtractGoVariableAssignments_def)

theorem Extract_unregistered_dir_witness:
  "DirToImport s1Registry (registryDirPath s1Helpers ''/vendor/dep/dep.go'') = None
   \<and> ParseCtx s1Helpers [] = Inr s1Tree
   \<and> ExtractGoVariableAssignments s1Helpers ''/vendor/dep/dep.go'' []
        (NewGoTypeInferenceEngine (Some s1Registry)) s1Registry (Some s1Imports)
      = (None, NewGoTypeInferenceEngine (Some s1Registry))"
proof -
  have d: "DirToImport s1Registry (registryDirPath s1Helpers ''/vendor/dep/dep.go'') = None"
    by (simp add: registryDirPath_def s1Helpers_def scenarioHelpers_sel LastIndex_vendor HasPrefix_def
          s1Registry_def mkRegistry_def)
  have p: "ParseCtx s1Helpers [] = Inr s1Tree"
    by (simp add: s1Helpers_def scenarioHelpers_sel)
  from Extract_unregistered_dir[OF d p] d p show ?thesis by simp
qed

text \<open>The parser's error is the only other outcome; the engine is unchanged then too.\<close>

lemma Extract_parse_error:
  "ParseCtx h sourceCode = Inl err \<Longrightarrow>
   ExtractGoVariableAssignments h filePath sourceCode e reg im = (Some err, e)"
  by (simp add: ExtractGoVariableAssignments_def)

end
